theory Spec2Isabelle
  imports Main "HOL-Library.AList"
begin

section \<open>The platform the library runs on\<close>

text \<open>
  \<^verbatim>\<open>DynamicLibrary.cpp\<close> talks to the operating system through the dynamic loader
  (\<^verbatim>\<open>dlopen\<close>, \<^verbatim>\<open>dlclose\<close>, \<^verbatim>\<open>dlsym\<close>, \<^verbatim>\<open>dlerror\<close>), the file system
  (\<^verbatim>\<open>std::ifstream\<close>, \<^verbatim>\<open>stat\<close>), the clock and \<^verbatim>\<open>sleep_for\<close>. None of these is
  code of the library, so they are a parameter of the model: a record of functions over an
  arbitrary world \<open>'w\<close>. Every call takes the world and returns the new one, so two calls
  with the same arguments may answer differently (a second \<^verbatim>\<open>dlclose\<close> of the same
  handle, the clock read twice). The branch of the source that is modelled is the one
  outside \<^verbatim>\<open>#ifdef _WIN32\<close> (the Makefile links with \<^verbatim>\<open>-ldl\<close>).

  A pointer is a natural number and \<open>0\<close> is \<^verbatim>\<open>nullptr\<close>; a \<^verbatim>\<open>char*\<close> that may be
  null is a \<open>string option\<close>; a \<^verbatim>\<open>time_point\<close> is an integer count of clock ticks.
\<close>

type_synonym LibHandle = nat
type_synonym address = nat
type_synonym time_point = int

text \<open>The two flag combinations the source passes to \<^verbatim>\<open>dlopen\<close>.\<close>

datatype dlflags = RTLD_NOW_LOCAL | RTLD_NOW_NOLOAD

record 'w platform =
  ifstream_good :: "string \<Rightarrow> 'w \<Rightarrow> bool \<times> 'w"
  stat_mtime :: "string \<Rightarrow> 'w \<Rightarrow> time_point option \<times> 'w"
  clock_now :: "'w \<Rightarrow> time_point \<times> 'w"
  dlopen :: "string \<Rightarrow> dlflags \<Rightarrow> 'w \<Rightarrow> LibHandle \<times> 'w"
  dlclose :: "LibHandle \<Rightarrow> 'w \<Rightarrow> int \<times> 'w"
  dlsym :: "LibHandle \<Rightarrow> string \<Rightarrow> 'w \<Rightarrow> address \<times> 'w"
  dlerror :: "'w \<Rightarrow> string option \<times> 'w"
  sleep_for :: "nat \<Rightarrow> 'w \<Rightarrow> 'w"

text \<open>
  \<open>stat_mtime\<close> is \<^verbatim>\<open>stat\<close> followed by \<^verbatim>\<open>system_clock::from_time_t\<close> on
  \<^verbatim>\<open>st_mtime\<close>; \<open>None\<close> is a non-zero return of \<^verbatim>\<open>stat\<close>.
\<close>

section \<open>Data model\<close>

text \<open>
  Modelled from the spec: the enumeration \<^verbatim>\<open>AutoReload\<close>. The header that declares it
  is not among the sources; section 6 of the specification names its two values, and the
  source uses \<^verbatim>\<open>AutoReload::Enabled\<close>.
\<close>

datatype AutoReload = Disabled | Enabled

record LibraryInfo =
  handle :: LibHandle
  path :: string
  last_modified :: time_point
  symbol_cache :: "string \<rightharpoonup> address"
  reload_capability_tested :: bool
  can_reload :: bool

record Implementation =
  lib :: LibraryInfo
  auto_reload :: AutoReload
  error_message :: string

text \<open>
  What an operation can raise: the exception of the library itself, and the
  \<^verbatim>\<open>std::logic_error\<close> of a \<^verbatim>\<open>std::string\<close> built from a null pointer (the
  C++ standard leaves that construction undefined; libstdc++ raises this exception).
\<close>

datatype cpp_exception = DynamicLibraryException string | std_logic_error

text \<open>The state of a default-constructed \<^verbatim>\<open>DynamicLibrary\<close>.\<close>

definition LibraryInfo_default :: LibraryInfo where
  "LibraryInfo_default =
     \<lparr>handle = 0, path = [], last_modified = 0, symbol_cache = Map.empty,
      reload_capability_tested = False, can_reload = True\<rparr>"

definition DynamicLibrary_default :: Implementation where
  "DynamicLibrary_default =
     \<lparr>lib = LibraryInfo_default, auto_reload = Enabled, error_message = []\<rparr>"

section \<open>\<^verbatim>\<open>DynamicLibrary::Implementation\<close>\<close>

definition validatePath ::
  "'w platform \<Rightarrow> 'w \<Rightarrow> Implementation \<Rightarrow> string \<Rightarrow> bool \<times> 'w \<times> Implementation" where
  "validatePath pf w s p_path =
     (if p_path = [] then
        (False, w, s\<lparr>error_message := ''Library path cannot be empty''\<rparr>)
      else
        (case ifstream_good pf p_path w of
           (good, w1) \<Rightarrow>
             if \<not> good then
               (False, w1,
                s\<lparr>error_message :=
                     ''Library file does not exist or is not accessible: '' @ p_path\<rparr>)
             else (True, w1, s)))"

definition getFileModificationTime ::
  "'w platform \<Rightarrow> 'w \<Rightarrow> string \<Rightarrow> time_point \<times> 'w" where
  "getFileModificationTime pf w p_path =
     (case stat_mtime pf p_path w of
        (Some t, w1) \<Rightarrow> (t, w1)
      | (None, w1) \<Rightarrow> clock_now pf w1)"

text \<open>
  The expression \<^verbatim>\<open>dlerror() ? dlerror() : "Unknown error"\<close>, which initialises a
  \<^verbatim>\<open>std::string\<close>: \<^verbatim>\<open>dlerror\<close> is called once for the test and, when that call
  returned a message, a second time for the value. \<open>None\<close> is the second call returning a
  null pointer.
\<close>

definition dlerror_or_unknown :: "'w platform \<Rightarrow> 'w \<Rightarrow> string option \<times> 'w" where
  "dlerror_or_unknown pf w =
     (case dlerror pf w of
        (None, w1) \<Rightarrow> (Some ''Unknown error'', w1)
      | (Some first, w1) \<Rightarrow> dlerror pf w1)"

definition loadInternal ::
  "'w platform \<Rightarrow> 'w \<Rightarrow> Implementation \<Rightarrow> (cpp_exception + bool) \<times> 'w \<times> Implementation" where
  "loadInternal pf w s =
     (case dlopen pf (path (lib s)) RTLD_NOW_LOCAL w of
        (h, w1) \<Rightarrow>
          let s1 = s\<lparr>lib := (lib s)\<lparr>handle := h\<rparr>\<rparr> in
          if h = 0 then
            (case dlerror_or_unknown pf w1 of
               (None, w2) \<Rightarrow> (Inl std_logic_error, w2, s1)
             | (Some error, w2) \<Rightarrow>
                 (Inr False, w2,
                  s1\<lparr>error_message :=
                        ''Failed to load library '' @ CHR 0x27 # path (lib s1) @
                        CHR 0x27 # '': '' @ error\<rparr>))
          else (Inr True, w1, s1))"

definition unloadInternal ::
  "'w platform \<Rightarrow> 'w \<Rightarrow> Implementation \<Rightarrow> (cpp_exception + bool) \<times> 'w \<times> Implementation" where
  "unloadInternal pf w s =
     (if handle (lib s) = 0 then (Inr True, w, s)
      else
        let s1 = s\<lparr>lib := (lib s)\<lparr>symbol_cache := Map.empty\<rparr>\<rparr> in
        (case dlclose pf (handle (lib s1)) w of
           (rc, w1) \<Rightarrow>
             if rc \<noteq> 0 then
               (case dlerror_or_unknown pf w1 of
                  (None, w2) \<Rightarrow> (Inl std_logic_error, w2, s1)
                | (Some error, w2) \<Rightarrow>
                    (Inr False, w2,
                     s1\<lparr>error_message :=
                           ''Failed to unload library '' @ CHR 0x27 # path (lib s1) @
                           CHR 0x27 # '': '' @ error,
                         lib := (lib s1)\<lparr>handle := 0\<rparr>\<rparr>))
             else (Inr True, w1, s1\<lparr>lib := (lib s1)\<lparr>handle := 0\<rparr>\<rparr>)))"

text \<open>\<^verbatim>\<open>Implementation::getSymbolInternal\<close>: the platform lookup, without the cache.\<close>

definition Implementation_getSymbolInternal ::
  "'w platform \<Rightarrow> 'w \<Rightarrow> Implementation \<Rightarrow> string \<Rightarrow> address \<times> 'w \<times> Implementation" where
  "Implementation_getSymbolInternal pf w s p_symbol_name =
     (case dlerror pf w of
        (cleared, w1) \<Rightarrow>
          (case dlsym pf (handle (lib s)) p_symbol_name w1 of
             (symbol, w2) \<Rightarrow>
               (case dlerror pf w2 of
                  (Some error, w3) \<Rightarrow>
                    (0, w3,
                     s\<lparr>error_message :=
                          ''Symbol '' @ CHR 0x27 # p_symbol_name @
                          CHR 0x27 # '' not found in library '' @
                          CHR 0x27 # path (lib s) @ CHR 0x27 # '': '' @ error\<rparr>)
                | (None, w3) \<Rightarrow> (symbol, w3, s))))"

definition needsReload :: "'w platform \<Rightarrow> 'w \<Rightarrow> Implementation \<Rightarrow> bool \<times> 'w" where
  "needsReload pf w s =
     (case getFileModificationTime pf w (path (lib s)) of
        (current_mod_time, w1) \<Rightarrow> (last_modified (lib s) < current_mod_time, w1))"

definition canReload ::
  "'w platform \<Rightarrow> 'w \<Rightarrow> Implementation \<Rightarrow> bool \<times> 'w \<times> Implementation" where
  "canReload pf w s =
     (if handle (lib s) = 0 \<or> reload_capability_tested (lib s) then
        (can_reload (lib s), w, s)
      else
        let s1 = s\<lparr>lib := (lib s)\<lparr>reload_capability_tested := True\<rparr>\<rparr> in
        (case dlopen pf (path (lib s1)) RTLD_NOW_NOLOAD w of
           (test_handle, w1) \<Rightarrow>
             if test_handle \<noteq> 0 then
               (case dlclose pf test_handle w1 of
                  (rc, w2) \<Rightarrow>
                    (rc = 0, w2, s1\<lparr>lib := (lib s1)\<lparr>can_reload := (rc = 0)\<rparr>\<rparr>))
             else
               (case dlopen pf (path (lib s1)) RTLD_NOW_LOCAL w1 of
                  (test_handle2, w2) \<Rightarrow>
                    if test_handle2 \<noteq> 0 then
                      (case dlclose pf test_handle2 w2 of
                         (rc, w3) \<Rightarrow>
                           (rc = 0, w3, s1\<lparr>lib := (lib s1)\<lparr>can_reload := (rc = 0)\<rparr>\<rparr>))
                    else
                      (False, w2, s1\<lparr>lib := (lib s1)\<lparr>can_reload := False\<rparr>\<rparr>))))"

definition reloadInternal ::
  "'w platform \<Rightarrow> 'w \<Rightarrow> Implementation \<Rightarrow> (cpp_exception + bool) \<times> 'w \<times> Implementation" where
  "reloadInternal pf w s =
     (case canReload pf w s of
        (possible, w1, s1) \<Rightarrow>
          if \<not> possible then
            (Inr False, w1,
             s1\<lparr>error_message :=
                   ''Library cannot be reloaded - reload capability not supported''\<rparr>)
          else
            let p = path (lib s1) in
            (case unloadInternal pf w1 s1 of
               (Inl e, w2, s2) \<Rightarrow> (Inl e, w2, s2)
             | (Inr unloaded, w2, s2) \<Rightarrow>
                 let s3 = (if \<not> unloaded then
                             s2\<lparr>error_message :=
                                  ''Warning: Unload failed, attempting reload anyway''\<rparr>
                           else s2);
                     w3 = sleep_for pf 10 w2;
                     s4 = s3\<lparr>lib := (lib s3)\<lparr>path := p\<rparr>\<rparr>
                 in
                 (case getFileModificationTime pf w3 p of
                    (t, w4) \<Rightarrow>
                      (case loadInternal pf w4 (s4\<lparr>lib := (lib s4)\<lparr>last_modified := t\<rparr>\<rparr>) of
                         (Inl e, w5, s5) \<Rightarrow> (Inl e, w5, s5)
                       | (Inr success, w5, s5) \<Rightarrow>
                           if \<not> success then
                             (Inr False, w5,
                              s5\<lparr>error_message :=
                                    ''Failed to reload library '' @ CHR 0x27 # p @
                                    CHR 0x27 # '': '' @ error_message s5\<rparr>)
                           else (Inr True, w5, s5)))))"

section \<open>\<^verbatim>\<open>DynamicLibrary\<close>: the public operations\<close>

text \<open>
  Each operation holds the mutex of the object from its first statement to its last, so
  it is one step on the pair of world and object state.
\<close>

definition load ::
  "'w platform \<Rightarrow> 'w \<Rightarrow> Implementation \<Rightarrow> string \<Rightarrow> AutoReload \<Rightarrow>
   (cpp_exception + bool) \<times> 'w \<times> Implementation" where
  "load pf w s p_library_path p_auto_reload =
     (case (if handle (lib s) \<noteq> 0 then unloadInternal pf w s else (Inr True, w, s)) of
        (Inl e, w1, s1) \<Rightarrow> (Inl e, w1, s1)
      | (Inr ignored, w1, s1) \<Rightarrow>
          (case validatePath pf w1 s1 p_library_path of
             (valid, w2, s2) \<Rightarrow>
               if \<not> valid then (Inr False, w2, s2)
               else
                 (case getFileModificationTime pf w2 p_library_path of
                    (t, w3) \<Rightarrow>
                      loadInternal pf w3
                        (s2\<lparr>lib := (lib s2)\<lparr>path := p_library_path, last_modified := t\<rparr>,
                            auto_reload := p_auto_reload\<rparr>))))"

definition unload ::
  "'w platform \<Rightarrow> 'w \<Rightarrow> Implementation \<Rightarrow> (cpp_exception + bool) \<times> 'w \<times> Implementation" where
  "unload pf w s = unloadInternal pf w s"

definition isLoaded :: "Implementation \<Rightarrow> bool" where
  "isLoaded s = (handle (lib s) \<noteq> 0)"

definition getSymbolInternal ::
  "'w platform \<Rightarrow> 'w \<Rightarrow> Implementation \<Rightarrow> string \<Rightarrow>
   (cpp_exception + address) \<times> 'w \<times> Implementation" where
  "getSymbolInternal pf w s p_symbol_name =
     (if handle (lib s) = 0 then
        (Inr 0, w, s\<lparr>error_message := ''Library not loaded''\<rparr>)
      else
        (case (if auto_reload s = Enabled then needsReload pf w s else (False, w)) of
           (stale, w1) \<Rightarrow>
             (case (if stale then reloadInternal pf w1 s else (Inr True, w1, s)) of
                (Inl e, w2, s2) \<Rightarrow> (Inl e, w2, s2)
              | (Inr reloaded, w2, s2) \<Rightarrow>
                  if \<not> reloaded then (Inr 0, w2, s2)
                  else
                    (case symbol_cache (lib s2) p_symbol_name of
                       Some cached \<Rightarrow> (Inr cached, w2, s2)
                     | None \<Rightarrow>
                         (case Implementation_getSymbolInternal pf w2 s2 p_symbol_name of
                            (symbol, w3, s3) \<Rightarrow>
                              (Inr symbol, w3,
                               if symbol \<noteq> 0 then
                                 s3\<lparr>lib := (lib s3)
                                      \<lparr>symbol_cache :=
                                         (symbol_cache (lib s3))(p_symbol_name \<mapsto> symbol)\<rparr>\<rparr>
                               else s3))))))"

definition checkForUpdates ::
  "'w platform \<Rightarrow> 'w \<Rightarrow> Implementation \<Rightarrow> bool \<times> 'w \<times> Implementation" where
  "checkForUpdates pf w s = (case needsReload pf w s of (newer, w1) \<Rightarrow> (newer, w1, s))"

definition reload ::
  "'w platform \<Rightarrow> 'w \<Rightarrow> Implementation \<Rightarrow> (cpp_exception + bool) \<times> 'w \<times> Implementation" where
  "reload pf w s =
     (if handle (lib s) = 0 then (Inr False, w, s) else reloadInternal pf w s)"

definition setAutoReload :: "Implementation \<Rightarrow> AutoReload \<Rightarrow> Implementation" where
  "setAutoReload s p_enable = s\<lparr>auto_reload := p_enable\<rparr>"

definition getErrorMessage :: "Implementation \<Rightarrow> string" where
  "getErrorMessage s = error_message s"

definition touch ::
  "'w platform \<Rightarrow> 'w \<Rightarrow> Implementation \<Rightarrow> (cpp_exception + bool) \<times> 'w \<times> Implementation" where
  "touch pf w s =
     (case clock_now pf w of
        (now, w1) \<Rightarrow>
          let s1 = s\<lparr>lib := (lib s)\<lparr>last_modified := now\<rparr>\<rparr> in
          if auto_reload s1 = Enabled then reloadInternal pf w1 s1
          else (Inr True, w1, s1))"

text \<open>
  The constructor \<^verbatim>\<open>DynamicLibrary(path, auto_reload)\<close>: a default object, then
  \<^verbatim>\<open>load\<close>; a load that returns false raises \<^verbatim>\<open>DynamicLibraryException\<close> with
  the stored message.
\<close>

definition DynamicLibrary_new ::
  "'w platform \<Rightarrow> 'w \<Rightarrow> string \<Rightarrow> AutoReload \<Rightarrow> (cpp_exception + Implementation) \<times> 'w" where
  "DynamicLibrary_new pf w p_library_path p_auto_reload =
     (case load pf w DynamicLibrary_default p_library_path p_auto_reload of
        (Inl e, w1, s1) \<Rightarrow> (Inl e, w1)
      | (Inr loaded, w1, s1) \<Rightarrow>
          if \<not> loaded then (Inl (DynamicLibraryException (error_message s1)), w1)
          else (Inr s1, w1))"

section \<open>\<^verbatim>\<open>DynamicLibraryManager\<close>\<close>

text \<open>
  \<^verbatim>\<open>m_libraries\<close> is an \<^verbatim>\<open>unordered_map\<close> from names to owned objects: an association
  list with one entry per name, whose order is the (unspecified) iteration order.
  A returned \<^verbatim>\<open>shared_ptr\<close> has an empty deleter; the model returns the object it points to.
\<close>

type_synonym DynamicLibraryManager = "(string \<times> Implementation) list"

definition loadLibrary ::
  "'w platform \<Rightarrow> 'w \<Rightarrow> DynamicLibraryManager \<Rightarrow> string \<Rightarrow> string \<Rightarrow> AutoReload \<Rightarrow>
   (cpp_exception + Implementation) \<times> 'w \<times> DynamicLibraryManager" where
  "loadLibrary pf w m_libraries p_name p_path p_auto_reload =
     (case map_of m_libraries p_name of
        Some existing \<Rightarrow> (Inr existing, w, m_libraries)
      | None \<Rightarrow>
          (case DynamicLibrary_new pf w p_path p_auto_reload of
             (Inl e, w1) \<Rightarrow> (Inl e, w1, m_libraries)
           | (Inr created, w1) \<Rightarrow>
               (Inr created, w1, AList.update p_name created m_libraries)))"

text \<open>
  \<^verbatim>\<open>erase\<close> destroys the object; the destructors are the defaulted ones, which call
  nothing of the platform.
\<close>

definition unloadLibrary :: "DynamicLibraryManager \<Rightarrow> string \<Rightarrow> DynamicLibraryManager" where
  "unloadLibrary m_libraries p_name = AList.delete p_name m_libraries"

definition getLibrary :: "DynamicLibraryManager \<Rightarrow> string \<Rightarrow> Implementation option" where
  "getLibrary m_libraries p_name = map_of m_libraries p_name"

fun checkAllForUpdates ::
  "'w platform \<Rightarrow> 'w \<Rightarrow> DynamicLibraryManager \<Rightarrow> bool \<times> 'w" where
  "checkAllForUpdates pf w [] = (False, w)"
| "checkAllForUpdates pf w (library_pair # rest) =
     (case checkForUpdates pf w (snd library_pair) of
        (newer, w1, unchanged) \<Rightarrow>
          if newer then (True, w1) else checkAllForUpdates pf w1 rest)"

section \<open>A simulated platform for concrete runs\<close>

text \<open>
  One world to run the operations on: two shared objects, \<^verbatim>\<open>./libexample.so\<close> (handle
  1) and \<^verbatim>\<open>./libgood.so\<close> (handle 2), each exporting \<^verbatim>\<open>add\<close>; a list of the
  handles that are open (one entry per reference); a switch that makes \<^verbatim>\<open>dlclose\<close>
  report an error; the message the next \<^verbatim>\<open>dlerror\<close> returns, which that call clears (as
  POSIX specifies: a second call in a row returns a null pointer); and the list of the calls
  made to \<^verbatim>\<open>dlopen\<close>, \<^verbatim>\<open>dlclose\<close> and \<^verbatim>\<open>dlsym\<close>, newest first.
\<close>

datatype loader_call =
  Call_dlopen string dlflags | Call_dlclose LibHandle | Call_dlsym LibHandle string

record sim_world =
  sim_clock :: time_point
  sim_mtime :: time_point
  sim_close_fails :: bool
  sim_open :: "LibHandle list"
  sim_pending :: "string option"
  sim_calls :: "loader_call list"

definition sim_handle_of :: "string \<Rightarrow> LibHandle" where
  "sim_handle_of p =
     (if p = ''./libexample.so'' then 1 else if p = ''./libgood.so'' then 2 else 0)"

definition sim_dlopen :: "string \<Rightarrow> dlflags \<Rightarrow> sim_world \<Rightarrow> LibHandle \<times> sim_world" where
  "sim_dlopen p flags w =
     (let h = sim_handle_of p;
          w1 = w\<lparr>sim_calls := Call_dlopen p flags # sim_calls w\<rparr>
      in if h \<noteq> 0 \<and> (flags = RTLD_NOW_LOCAL \<or> h \<in> set (sim_open w)) then
           (h, w1\<lparr>sim_open := h # sim_open w\<rparr>)
         else (0, w1\<lparr>sim_pending := Some ''cannot open shared object file''\<rparr>))"

definition sim_dlclose :: "LibHandle \<Rightarrow> sim_world \<Rightarrow> int \<times> sim_world" where
  "sim_dlclose h w =
     (let w1 = w\<lparr>sim_calls := Call_dlclose h # sim_calls w\<rparr>
      in if sim_close_fails w \<or> h \<notin> set (sim_open w) then
           (- 1, w1\<lparr>sim_pending := Some ''cannot close shared object''\<rparr>)
         else (0, w1\<lparr>sim_open := remove1 h (sim_open w)\<rparr>))"

definition sim_dlsym :: "LibHandle \<Rightarrow> string \<Rightarrow> sim_world \<Rightarrow> address \<times> sim_world" where
  "sim_dlsym h name w =
     (let w1 = w\<lparr>sim_calls := Call_dlsym h name # sim_calls w\<rparr>
      in if h \<in> set (sim_open w) \<and> name = ''add'' then (4096 * h, w1)
         else (0, w1\<lparr>sim_pending := Some ''undefined symbol''\<rparr>))"

definition sim :: "sim_world platform" where
  "sim =
     \<lparr>ifstream_good = (\<lambda>p w. (sim_handle_of p \<noteq> 0, w)),
      stat_mtime = (\<lambda>p w. (if sim_handle_of p \<noteq> 0 then Some (sim_mtime w) else None, w)),
      clock_now = (\<lambda>w. (sim_clock w, w)),
      dlopen = sim_dlopen,
      dlclose = sim_dlclose,
      dlsym = sim_dlsym,
      dlerror = (\<lambda>w. (sim_pending w, w\<lparr>sim_pending := None\<rparr>)),
      sleep_for = (\<lambda>ms w. w\<lparr>sim_clock := sim_clock w + int ms\<rparr>)\<rparr>"

text \<open>The world at the start: clock at 100, both files last written at 50, nothing open.\<close>

definition sim_start :: sim_world where
  "sim_start =
     \<lparr>sim_clock = 100, sim_mtime = 50, sim_close_fails = False, sim_open = [],
      sim_pending = None, sim_calls = []\<rparr>"

text \<open>The object right after \<^verbatim>\<open>./libexample.so\<close> was loaded in \<open>sim_start\<close>.\<close>

definition w_loaded :: sim_world where
  "w_loaded =
     \<lparr>sim_clock = 100, sim_mtime = 50, sim_close_fails = False, sim_open = [1],
      sim_pending = None, sim_calls = [Call_dlopen ''./libexample.so'' RTLD_NOW_LOCAL]\<rparr>"

definition s_loaded :: Implementation where
  "s_loaded =
     \<lparr>lib = \<lparr>handle = 1, path = ''./libexample.so'', last_modified = 50,
             symbol_cache = Map.empty, reload_capability_tested = False, can_reload = True\<rparr>,
      auto_reload = Enabled, error_message = []\<rparr>"

text \<open>The same object after \<^verbatim>\<open>getSymbol("add")\<close>: the address is in the cache.\<close>

definition w_cached :: sim_world where
  "w_cached =
     \<lparr>sim_clock = 100, sim_mtime = 50, sim_close_fails = False, sim_open = [1],
      sim_pending = None,
      sim_calls = [Call_dlsym 1 ''add'', Call_dlopen ''./libexample.so'' RTLD_NOW_LOCAL]\<rparr>"

definition s_cached :: Implementation where
  "s_cached =
     \<lparr>lib = \<lparr>handle = 1, path = ''./libexample.so'', last_modified = 50,
             symbol_cache = [''add'' \<mapsto> 4096], reload_capability_tested = False,
             can_reload = True\<rparr>,
      auto_reload = Enabled, error_message = []\<rparr>"

text \<open>
  The loaded object after a \<^verbatim>\<open>canReload\<close> whose probe met a failing \<^verbatim>\<open>dlclose\<close>, and
  the same object after \<^verbatim>\<open>./libgood.so\<close> was then loaded into it (the unloader working
  again).
\<close>

definition w_refused :: sim_world where
  "w_refused =
     \<lparr>sim_clock = 100, sim_mtime = 50, sim_close_fails = True, sim_open = [1, 1],
      sim_pending = Some ''cannot close shared object'',
      sim_calls =
        [Call_dlclose 1, Call_dlopen ''./libexample.so'' RTLD_NOW_NOLOAD,
         Call_dlopen ''./libexample.so'' RTLD_NOW_LOCAL]\<rparr>"

definition s_refused :: Implementation where
  "s_refused =
     \<lparr>lib = \<lparr>handle = 1, path = ''./libexample.so'', last_modified = 50,
             symbol_cache = Map.empty, reload_capability_tested = True, can_reload = False\<rparr>,
      auto_reload = Enabled, error_message = []\<rparr>"

definition w_second :: sim_world where
  "w_second =
     \<lparr>sim_clock = 100, sim_mtime = 50, sim_close_fails = False, sim_open = [2, 1],
      sim_pending = Some ''cannot close shared object'',
      sim_calls =
        [Call_dlopen ''./libgood.so'' RTLD_NOW_LOCAL, Call_dlclose 1, Call_dlclose 1,
         Call_dlopen ''./libexample.so'' RTLD_NOW_NOLOAD,
         Call_dlopen ''./libexample.so'' RTLD_NOW_LOCAL]\<rparr>"

definition s_second :: Implementation where
  "s_second =
     \<lparr>lib = \<lparr>handle = 2, path = ''./libgood.so'', last_modified = 50,
             symbol_cache = Map.empty, reload_capability_tested = True, can_reload = False\<rparr>,
      auto_reload = Enabled, error_message = []\<rparr>"

text \<open>
  The loaded object after \<^verbatim>\<open>getSymbol("sub")\<close>, a name that \<^verbatim>\<open>./libexample.so\<close> does
  not export.
\<close>

definition w_missed :: sim_world where
  "w_missed =
     \<lparr>sim_clock = 100, sim_mtime = 50, sim_close_fails = False, sim_open = [1],
      sim_pending = None,
      sim_calls = [Call_dlsym 1 ''sub'', Call_dlopen ''./libexample.so'' RTLD_NOW_LOCAL]\<rparr>"

definition s_missed :: Implementation where
  "s_missed =
     \<lparr>lib = \<lparr>handle = 1, path = ''./libexample.so'', last_modified = 50,
             symbol_cache = Map.empty, reload_capability_tested = False, can_reload = True\<rparr>,
      auto_reload = Enabled,
      error_message =
        ''Symbol '' @ CHR 0x27 # ''sub'' @ CHR 0x27 # '' not found in library '' @
        CHR 0x27 # ''./libexample.so'' @ CHR 0x27 # '': undefined symbol''\<rparr>"

text \<open>A registry with two entries.\<close>

definition two_libraries :: DynamicLibraryManager where
  "two_libraries = [(''math'', s_cached), (''utils'', s_second)]"

text \<open>
  The object of \<open>s_refused\<close> after an \<^verbatim>\<open>unload\<close> with the unloader working again, and the
  object of \<open>s_loaded\<close> after an \<^verbatim>\<open>unload\<close>.
\<close>

definition w_dropped :: sim_world where
  "w_dropped =
     \<lparr>sim_clock = 100, sim_mtime = 50, sim_close_fails = False, sim_open = [1],
      sim_pending = Some ''cannot close shared object'',
      sim_calls =
        [Call_dlclose 1, Call_dlclose 1, Call_dlopen ''./libexample.so'' RTLD_NOW_NOLOAD,
         Call_dlopen ''./libexample.so'' RTLD_NOW_LOCAL]\<rparr>"

definition s_dropped :: Implementation where
  "s_dropped =
     \<lparr>lib = \<lparr>handle = 0, path = ''./libexample.so'', last_modified = 50,
             symbol_cache = Map.empty, reload_capability_tested = True, can_reload = False\<rparr>,
      auto_reload = Enabled, error_message = []\<rparr>"

definition w_unloaded :: sim_world where
  "w_unloaded =
     \<lparr>sim_clock = 100, sim_mtime = 50, sim_close_fails = False, sim_open = [],
      sim_pending = None,
      sim_calls = [Call_dlclose 1, Call_dlopen ''./libexample.so'' RTLD_NOW_LOCAL]\<rparr>"

definition s_unloaded :: Implementation where
  "s_unloaded =
     \<lparr>lib = \<lparr>handle = 0, path = ''./libexample.so'', last_modified = 50,
             symbol_cache = Map.empty, reload_capability_tested = False, can_reload = True\<rparr>,
      auto_reload = Enabled, error_message = []\<rparr>"

text \<open>The object of \<open>s_cached\<close> after a \<^verbatim>\<open>canReload\<close> whose probe passed.\<close>

definition w_probed :: sim_world where
  "w_probed =
     \<lparr>sim_clock = 100, sim_mtime = 50, sim_close_fails = False, sim_open = [1],
      sim_pending = None,
      sim_calls =
        [Call_dlclose 1, Call_dlopen ''./libexample.so'' RTLD_NOW_NOLOAD,
         Call_dlsym 1 ''add'', Call_dlopen ''./libexample.so'' RTLD_NOW_LOCAL]\<rparr>"

definition s_probed :: Implementation where
  "s_probed =
     \<lparr>lib = \<lparr>handle = 1, path = ''./libexample.so'', last_modified = 50,
             symbol_cache = [''add'' \<mapsto> 4096], reload_capability_tested = True,
             can_reload = True\<rparr>,
      auto_reload = Enabled, error_message = []\<rparr>"

section \<open>Sequences of calls on one object\<close>

text \<open>
  A client of one object: the public operations called one after the other, with the
  environment changing in between. Results are dropped; world and object are passed on,
  also after an operation that raised.
\<close>

datatype 'w operation =
  Do_load string AutoReload | Do_unload | Do_reload | Do_getSymbol string | Do_touch
| Do_canReload | Do_checkForUpdates | Do_setAutoReload AutoReload | Environment "'w \<Rightarrow> 'w"

fun perform ::
  "'w platform \<Rightarrow> 'w \<times> Implementation \<Rightarrow> 'w operation \<Rightarrow> 'w \<times> Implementation" where
  "perform pf (w, s) (Do_load p m) = snd (load pf w s p m)"
| "perform pf (w, s) Do_unload = snd (unload pf w s)"
| "perform pf (w, s) Do_reload = snd (reload pf w s)"
| "perform pf (w, s) (Do_getSymbol n) = snd (getSymbolInternal pf w s n)"
| "perform pf (w, s) Do_touch = snd (touch pf w s)"
| "perform pf (w, s) Do_canReload = snd (canReload pf w s)"
| "perform pf (w, s) Do_checkForUpdates = snd (checkForUpdates pf w s)"
| "perform pf (w, s) (Do_setAutoReload m) = (w, setAutoReload s m)"
| "perform pf (w, s) (Environment change) = (change w, s)"

definition perform_all ::
  "'w platform \<Rightarrow> 'w \<times> Implementation \<Rightarrow> 'w operation list \<Rightarrow> 'w \<times> Implementation" where
  "perform_all pf ws ops = foldl (perform pf) ws ops"

text \<open>The cached verdict: the two fields \<^verbatim>\<open>reload_capability_tested\<close> and \<^verbatim>\<open>can_reload\<close>.\<close>

definition verdict :: "Implementation \<Rightarrow> bool \<times> bool" where
  "verdict s = (reload_capability_tested (lib s), can_reload (lib s))"

text \<open>
  The same platform with another answer to \<^verbatim>\<open>dlopen(path, RTLD_NOW | RTLD_NOLOAD)\<close>,
  the call every probe starts with and nothing else makes: an operation whose outcome is
  the same on both platforms has not probed.
\<close>

definition with_residency_check ::
  "(string \<Rightarrow> 'w \<Rightarrow> LibHandle \<times> 'w) \<Rightarrow> 'w platform \<Rightarrow> 'w platform" where
  "with_residency_check g pf =
     pf\<lparr>dlopen := (\<lambda>p flags. if flags = RTLD_NOW_NOLOAD then g p else dlopen pf p flags)\<rparr>"

text \<open>Two sequences of calls for the concrete runs.\<close>

definition later_calls :: "sim_world operation list" where
  "later_calls =
     [Environment (\<lambda>w. w\<lparr>sim_close_fails := False\<rparr>), Do_unload,
      Do_load ''./libgood.so'' Enabled, Do_getSymbol ''add'', Do_touch, Do_reload]"

definition quiet_calls :: "sim_world operation list" where
  "quiet_calls = [Do_getSymbol ''add'', Do_checkForUpdates, Do_unload]"

text \<open>
  The simulated platform once the file on disk is no longer a shared object: every
  \<^verbatim>\<open>dlopen\<close> fails and leaves a message.
\<close>

definition sim_dlopen_refused ::
  "string \<Rightarrow> dlflags \<Rightarrow> sim_world \<Rightarrow> LibHandle \<times> sim_world" where
  "sim_dlopen_refused p flags w =
     (0, w\<lparr>sim_calls := Call_dlopen p flags # sim_calls w,
           sim_pending := Some ''file too short''\<rparr>)"

definition sim_truncated :: "sim_world platform" where
  "sim_truncated = sim\<lparr>dlopen := sim_dlopen_refused\<rparr>"

section \<open>The invariant of the symbol cache\<close>

definition cache_invariant :: "Implementation \<Rightarrow> bool" where
  "cache_invariant s = (handle (lib s) = 0 \<longrightarrow> symbol_cache (lib s) = Map.empty)"

section \<open>What each internal function leaves untouched\<close>

lemmas sim_defs = sim_def sim_dlopen_def sim_dlclose_def sim_dlsym_def sim_handle_of_def

lemma canReload_keeps:
  "handle (lib (snd (snd (canReload pf w s)))) = handle (lib s)"
  "path (lib (snd (snd (canReload pf w s)))) = path (lib s)"
  "symbol_cache (lib (snd (snd (canReload pf w s)))) = symbol_cache (lib s)"
  "last_modified (lib (snd (snd (canReload pf w s)))) = last_modified (lib s)"
  "auto_reload (snd (snd (canReload pf w s))) = auto_reload s"
  "error_message (snd (snd (canReload pf w s))) = error_message s"
  "can_reload (lib (snd (snd (canReload pf w s)))) = fst (canReload pf w s)"
  by (simp_all add: canReload_def Let_def split_def)

lemma unloadInternal_keeps:
  "symbol_cache (lib (snd (snd (unloadInternal pf w s)))) =
     (if handle (lib s) = 0 then symbol_cache (lib s) else Map.empty)"
  "path (lib (snd (snd (unloadInternal pf w s)))) = path (lib s)"
  "reload_capability_tested (lib (snd (snd (unloadInternal pf w s)))) =
     reload_capability_tested (lib s)"
  "can_reload (lib (snd (snd (unloadInternal pf w s)))) = can_reload (lib s)"
  "auto_reload (snd (snd (unloadInternal pf w s))) = auto_reload s"
  "last_modified (lib (snd (snd (unloadInternal pf w s)))) = last_modified (lib s)"
  by (simp_all add: unloadInternal_def Let_def split_def split: option.splits)

lemma unloadInternal_handle:
  "handle (lib (snd (snd (unloadInternal pf w s)))) =
     (case fst (unloadInternal pf w s) of Inl e \<Rightarrow> handle (lib s) | Inr b \<Rightarrow> 0)"
  by (simp add: unloadInternal_def Let_def split_def split: option.splits)

lemma loadInternal_keeps:
  "symbol_cache (lib (snd (snd (loadInternal pf w s)))) = symbol_cache (lib s)"
  "path (lib (snd (snd (loadInternal pf w s)))) = path (lib s)"
  "reload_capability_tested (lib (snd (snd (loadInternal pf w s)))) =
     reload_capability_tested (lib s)"
  "can_reload (lib (snd (snd (loadInternal pf w s)))) = can_reload (lib s)"
  "auto_reload (snd (snd (loadInternal pf w s))) = auto_reload s"
  "last_modified (lib (snd (snd (loadInternal pf w s)))) = last_modified (lib s)"
  "handle (lib (snd (snd (loadInternal pf w s)))) =
     fst (dlopen pf (path (lib s)) RTLD_NOW_LOCAL w)"
  by (simp_all add: loadInternal_def Let_def split_def split: option.splits)

lemma loadInternal_result:
  "(fst (loadInternal pf w s) = Inr True) =
     (fst (dlopen pf (path (lib s)) RTLD_NOW_LOCAL w) \<noteq> 0)"
  by (simp add: loadInternal_def Let_def split_def split: option.splits)

lemma validatePath_keeps:
  "lib (snd (snd (validatePath pf w s p))) = lib s"
  "auto_reload (snd (snd (validatePath pf w s p))) = auto_reload s"
  by (simp_all add: validatePath_def split_def)

lemma Implementation_getSymbolInternal_keeps:
  "lib (snd (snd (Implementation_getSymbolInternal pf w s n))) = lib s"
  "auto_reload (snd (snd (Implementation_getSymbolInternal pf w s n))) = auto_reload s"
  by (simp_all add: Implementation_getSymbolInternal_def split_def split: option.splits)

lemma reloadInternal_cache:
  "symbol_cache (lib (snd (snd (reloadInternal pf w s)))) =
     (if fst (canReload pf w s) \<and> handle (lib s) \<noteq> 0 then Map.empty
      else symbol_cache (lib s))"
  by (simp add: reloadInternal_def Let_def split_def canReload_keeps unloadInternal_keeps
        loadInternal_keeps split: sum.splits)

lemma reloadInternal_refused:
  "\<not> fst (canReload pf w s) \<Longrightarrow>
     reloadInternal pf w s =
       (Inr False, fst (snd (canReload pf w s)),
        (snd (snd (canReload pf w s)))
          \<lparr>error_message :=
             ''Library cannot be reloaded - reload capability not supported''\<rparr>)"
  by (simp add: reloadInternal_def split_def)

lemma reloadInternal_True:
  "fst (reloadInternal pf w s) = Inr True \<Longrightarrow>
     handle (lib (snd (snd (reloadInternal pf w s)))) \<noteq> 0 \<and> fst (canReload pf w s)"
  by (auto simp add: reloadInternal_def Let_def split_def loadInternal_keeps
        loadInternal_result split: sum.splits if_splits)

section \<open>The invariant is kept\<close>

lemma reloadInternal_invariant:
  "cache_invariant s \<Longrightarrow> cache_invariant (snd (snd (reloadInternal pf w s)))"
  unfolding cache_invariant_def reloadInternal_cache
  by (auto simp: reloadInternal_refused canReload_keeps)

lemma unloadInternal_invariant:
  "cache_invariant s \<Longrightarrow> cache_invariant (snd (snd (unloadInternal pf w s)))"
  by (simp add: cache_invariant_def unloadInternal_keeps)

lemma unloadInternal_cache_empty:
  "cache_invariant s \<Longrightarrow>
     symbol_cache (lib (snd (snd (unloadInternal pf w s)))) = Map.empty"
  by (simp add: cache_invariant_def unloadInternal_keeps)

lemma load_cache_empty:
  "cache_invariant s \<Longrightarrow> symbol_cache (lib (snd (snd (load pf w s p m)))) = Map.empty"
  by (simp add: load_def Let_def split_def cache_invariant_def unloadInternal_keeps
        loadInternal_keeps validatePath_keeps split: sum.splits)

lemma load_invariant:
  "cache_invariant s \<Longrightarrow> cache_invariant (snd (snd (load pf w s p m)))"
  using load_cache_empty [of s pf w p m] by (simp add: cache_invariant_def)

lemma getSymbolInternal_invariant:
  "cache_invariant s \<Longrightarrow> cache_invariant (snd (snd (getSymbolInternal pf w s n)))"
proof (cases "handle (lib s) \<noteq> 0 \<and> auto_reload s = Enabled \<and> fst (needsReload pf w s)")
  case True
  assume inv: "cache_invariant s"
  let ?r = "reloadInternal pf (snd (needsReload pf w s)) s"
  have i: "cache_invariant (snd (snd ?r))" using inv by (rule reloadInternal_invariant)
  have t: "fst ?r = Inr True \<Longrightarrow> handle (lib (snd (snd ?r))) \<noteq> 0"
    by (rule reloadInternal_True [THEN conjunct1])
  show ?thesis using True i t
    by (auto simp add: getSymbolInternal_def split_def cache_invariant_def
          Implementation_getSymbolInternal_keeps split: sum.splits option.splits)
next
  case False
  assume inv: "cache_invariant s"
  then show ?thesis using False
    by (auto simp add: getSymbolInternal_def split_def cache_invariant_def
          Implementation_getSymbolInternal_keeps split: sum.splits option.splits)
qed

lemma touch_invariant:
  "cache_invariant s \<Longrightarrow> cache_invariant (snd (snd (touch pf w s)))"
proof -
  assume inv: "cache_invariant s"
  let ?s1 = "s\<lparr>lib := (lib s)\<lparr>last_modified := fst (clock_now pf w)\<rparr>\<rparr>"
  have "cache_invariant ?s1" using inv by (simp add: cache_invariant_def)
  then have "cache_invariant (snd (snd (reloadInternal pf (snd (clock_now pf w)) ?s1)))"
    by (rule reloadInternal_invariant)
  then show ?thesis using inv
    by (simp add: touch_def split_def Let_def cache_invariant_def)
qed

lemma reload_invariant:
  "cache_invariant s \<Longrightarrow> cache_invariant (snd (snd (reload pf w s)))"
  by (simp add: reload_def reloadInternal_invariant)

lemma unload_clears_first:
  "handle (lib s) \<noteq> 0 \<Longrightarrow>
     unload pf w s = unload pf w (s\<lparr>lib := (lib s)\<lparr>symbol_cache := Map.empty\<rparr>\<rparr>)"
  by (simp add: unload_def unloadInternal_def Let_def)

section \<open>Runs on the simulated platform\<close>

lemma sim_load_example:
  "load sim sim_start DynamicLibrary_default ''./libexample.so'' Enabled =
     (Inr True, w_loaded, s_loaded)"
  by (simp add: load_def validatePath_def getFileModificationTime_def loadInternal_def
        DynamicLibrary_default_def LibraryInfo_default_def sim_defs sim_start_def
        w_loaded_def s_loaded_def Let_def)

lemma sim_getSymbol_add:
  "getSymbolInternal sim w_loaded s_loaded ''add'' = (Inr 4096, w_cached, s_cached)"
  by (simp add: getSymbolInternal_def needsReload_def getFileModificationTime_def
        Implementation_getSymbolInternal_def sim_defs w_loaded_def s_loaded_def
        w_cached_def s_cached_def Let_def)

lemma sim_probe_refused:
  "canReload sim (w_loaded\<lparr>sim_close_fails := True\<rparr>) s_loaded = (False, w_refused, s_refused)"
  by (simp add: canReload_def sim_defs w_loaded_def s_loaded_def w_refused_def s_refused_def
        Let_def)

lemma sim_load_second:
  "load sim (w_refused\<lparr>sim_close_fails := False\<rparr>) s_refused ''./libgood.so'' Enabled =
     (Inr True, w_second, s_second)"
  by (simp add: load_def unloadInternal_def validatePath_def getFileModificationTime_def
        loadInternal_def sim_defs w_refused_def s_refused_def w_second_def s_second_def Let_def)

lemma sim_probe_passed:
  "canReload sim w_cached s_cached = (True, w_probed, s_probed)"
  by (simp add: canReload_def sim_defs w_cached_def s_cached_def w_probed_def s_probed_def
        Let_def)

lemmas run_defs = validatePath_def getFileModificationTime_def dlerror_or_unknown_def
  loadInternal_def unloadInternal_def Implementation_getSymbolInternal_def needsReload_def
  canReload_def reloadInternal_def Let_def

lemma getSymbolInternal_found:
  assumes "getSymbolInternal pf w s n = (Inr a, w1, s1)" and "a \<noteq> 0"
  shows "handle (lib s1) \<noteq> 0 \<and> symbol_cache (lib s1) n = Some a"
proof (cases "handle (lib s) \<noteq> 0 \<and> auto_reload s = Enabled \<and> fst (needsReload pf w s)")
  case True
  let ?r = "reloadInternal pf (snd (needsReload pf w s)) s"
  have t: "fst ?r = Inr True \<Longrightarrow> handle (lib (snd (snd ?r))) \<noteq> 0"
    by (rule reloadInternal_True [THEN conjunct1])
  show ?thesis using True assms t
    by (auto simp add: getSymbolInternal_def split_def
          Implementation_getSymbolInternal_keeps split: sum.splits option.splits if_splits)
next
  case False
  then show ?thesis using assms
    by (auto simp add: getSymbolInternal_def split_def
          Implementation_getSymbolInternal_keeps split: sum.splits option.splits if_splits)
qed

section \<open>\<^verbatim>\<open>unload\<close>, case by case\<close>

text \<open>
  On an object with no module \<^verbatim>\<open>unload\<close> returns true and changes nothing, so an
  \<^verbatim>\<open>unload\<close> that returned is followed by one that returns true. When \<^verbatim>\<open>dlclose\<close>
  fails and the diagnostic string can be built, \<^verbatim>\<open>unload\<close> returns false with the handle
  cleared. When \<^verbatim>\<open>dlclose\<close> fails and \<^verbatim>\<open>dlerror\<close> hands its message out once, as
  POSIX specifies (the source relies on that itself in \<^verbatim>\<open>getSymbolInternal\<close>:
  \<^verbatim>\<open>dlerror(); // Clear any previous error\<close>), the second \<^verbatim>\<open>dlerror()\<close> of
  \<^verbatim>\<open>dlerror() ? dlerror() : "Unknown error"\<close> is null and the statements that clear
  the handle and return are not reached.
\<close>

lemma unload_unloaded:
  "handle (lib s) = 0 \<Longrightarrow> unload pf w s = (Inr True, w, s)"
  by (simp add: unload_def unloadInternal_def)

lemma unload_returned:
  assumes "unload pf w s = (Inr b, w1, s1)"
  shows "handle (lib s1) = 0"
  using assms unloadInternal_handle [of pf w s] by (simp add: unload_def)

lemma unload_twice:
  assumes "unload pf w s = (Inr b, w1, s1)"
  shows "unload pf w' s1 = (Inr True, w', s1)"
  using unload_returned [OF assms] by (rule unload_unloaded)

lemma unload_failure_reported:
  assumes "handle (lib s) \<noteq> 0" and "dlclose pf (handle (lib s)) w = (rc, w1)" and "rc \<noteq> 0"
    and "dlerror_or_unknown pf w1 = (Some e, w2)"
  shows "unload pf w s =
     (Inr False, w2,
      s\<lparr>lib := (lib s)\<lparr>symbol_cache := Map.empty, handle := 0\<rparr>,
        error_message :=
          ''Failed to unload library '' @ CHR 0x27 # path (lib s) @ CHR 0x27 # '': '' @ e\<rparr>)"
  using assms by (simp add: unload_def unloadInternal_def Let_def)

lemma unload_failure_raises:
  assumes "handle (lib s) \<noteq> 0" and "dlclose pf (handle (lib s)) w = (rc, w1)" and "rc \<noteq> 0"
    and "dlerror pf w1 = (Some msg, w2)" and "dlerror pf w2 = (None, w3)"
  shows "unload pf w s =
     (Inl std_logic_error, w3, s\<lparr>lib := (lib s)\<lparr>symbol_cache := Map.empty\<rparr>\<rparr>)"
  using assms by (simp add: unload_def unloadInternal_def dlerror_or_unknown_def Let_def)

section \<open>The sweep of the registry\<close>

lemma checkForUpdates_quiet:
  assumes "\<forall>p v. snd (stat_mtime pf p v) = v" and "\<forall>v. snd (clock_now pf v) = v"
  shows "snd (checkForUpdates pf w s) = (w, s)"
  using assms
  by (simp add: checkForUpdates_def needsReload_def getFileModificationTime_def split_def
        split: option.splits)

lemma checkAllForUpdates_quiet:
  assumes "\<forall>p v. snd (stat_mtime pf p v) = v" and "\<forall>v. snd (clock_now pf v) = v"
  shows "checkAllForUpdates pf w m_libraries =
     ((\<exists>library_pair \<in> set m_libraries. fst (checkForUpdates pf w (snd library_pair))), w)"
proof (induction m_libraries)
  case Nil
  show ?case by simp
next
  case (Cons library_pair rest)
  have q: "snd (checkForUpdates pf w (snd library_pair)) = (w, snd library_pair)"
    using assms by (rule checkForUpdates_quiet)
  show ?case using Cons q by (auto simp add: split_def)
qed

lemma checkAllForUpdates_loader_free:
  "checkAllForUpdates
     (pf\<lparr>dlopen := a, dlclose := b, dlsym := c, dlerror := d, sleep_for := z\<rparr>) w m_libraries =
   checkAllForUpdates pf w m_libraries"
  by (induction m_libraries arbitrary: w)
     (simp_all add: checkForUpdates_def needsReload_def getFileModificationTime_def split_def
        split: option.splits)

lemma checkAllForUpdates_append:
  "checkAllForUpdates pf w (before @ rest) =
     (if fst (checkAllForUpdates pf w before) then checkAllForUpdates pf w before
      else checkAllForUpdates pf (snd (checkAllForUpdates pf w before)) rest)"
  by (induction before arbitrary: w) (simp_all add: split_def)

lemma checkAllForUpdates_first_newer:
  "fst (checkAllForUpdates pf w m_libraries) \<longleftrightarrow>
     (\<exists>before library_pair rest.
        m_libraries = before @ library_pair # rest \<and>
        \<not> fst (checkAllForUpdates pf w before) \<and>
        fst (checkForUpdates pf (snd (checkAllForUpdates pf w before)) (snd library_pair)))"
proof
  assume "fst (checkAllForUpdates pf w m_libraries)"
  then show "\<exists>before library_pair rest.
        m_libraries = before @ library_pair # rest \<and>
        \<not> fst (checkAllForUpdates pf w before) \<and>
        fst (checkForUpdates pf (snd (checkAllForUpdates pf w before)) (snd library_pair))"
  proof (induction m_libraries arbitrary: w)
    case Nil
    then show ?case by simp
  next
    case (Cons e es)
    show ?case
    proof (cases "fst (checkForUpdates pf w (snd e))")
      case True
      then have "e # es = [] @ e # es \<and> \<not> fst (checkAllForUpdates pf w []) \<and>
          fst (checkForUpdates pf (snd (checkAllForUpdates pf w [])) (snd e))"
        by simp
      then show ?thesis by blast
    next
      case False
      let ?w1 = "fst (snd (checkForUpdates pf w (snd e)))"
      from False Cons.prems have "fst (checkAllForUpdates pf ?w1 es)"
        by (simp add: split_def)
      from Cons.IH [OF this] obtain before library_pair rest where
        d: "es = before @ library_pair # rest"
        and n: "\<not> fst (checkAllForUpdates pf ?w1 before)"
        and y: "fst (checkForUpdates pf (snd (checkAllForUpdates pf ?w1 before)) (snd library_pair))"
        by blast
      have "e # es = (e # before) @ library_pair # rest \<and>
          \<not> fst (checkAllForUpdates pf w (e # before)) \<and>
          fst (checkForUpdates pf (snd (checkAllForUpdates pf w (e # before))) (snd library_pair))"
        using d n y False by (simp add: split_def)
      then show ?thesis by blast
    qed
  qed
next
  assume "\<exists>before library_pair rest.
        m_libraries = before @ library_pair # rest \<and>
        \<not> fst (checkAllForUpdates pf w before) \<and>
        fst (checkForUpdates pf (snd (checkAllForUpdates pf w before)) (snd library_pair))"
  then show "fst (checkAllForUpdates pf w m_libraries)"
    by (auto simp add: checkAllForUpdates_append split_def)
qed

lemma unloadLibrary_unknown:
  "map_of m_libraries p_name = None \<Longrightarrow> unloadLibrary m_libraries p_name = m_libraries"
  by (induction m_libraries) (auto simp add: unloadLibrary_def AList.delete_eq split: if_splits)

lemma sim_unload_refused:
  "unload sim (w_refused\<lparr>sim_close_fails := False\<rparr>) s_refused = (Inr True, w_dropped, s_dropped)"
  by (simp add: unload_def unloadInternal_def sim_defs w_refused_def s_refused_def
        w_dropped_def s_dropped_def Let_def)

lemma sim_unload_loaded:
  "unload sim w_loaded s_loaded = (Inr True, w_unloaded, s_unloaded)"
  by (simp add: unload_def unloadInternal_def sim_defs w_loaded_def s_loaded_def
        w_unloaded_def s_unloaded_def Let_def)

section \<open>The cached verdict is never reset\<close>

lemma canReload_tested:
  "reload_capability_tested (lib s) \<Longrightarrow> canReload pf w s = (can_reload (lib s), w, s)"
  by (simp add: canReload_def)

lemma canReload_sets:
  "handle (lib s) \<noteq> 0 \<Longrightarrow> reload_capability_tested (lib (snd (snd (canReload pf w s))))"
  by (simp add: canReload_def Let_def split_def)

lemma unloadInternal_verdict: "verdict (snd (snd (unloadInternal pf w s))) = verdict s"
  by (simp add: verdict_def unloadInternal_keeps)

lemma loadInternal_verdict: "verdict (snd (snd (loadInternal pf w s))) = verdict s"
  by (simp add: verdict_def loadInternal_keeps)

lemma load_verdict: "verdict (snd (snd (load pf w s p m))) = verdict s"
  by (simp add: verdict_def load_def split_def unloadInternal_keeps loadInternal_keeps
        validatePath_keeps split: sum.splits)

lemma reloadInternal_verdict:
  "reload_capability_tested (lib s) \<Longrightarrow> verdict (snd (snd (reloadInternal pf w s))) = verdict s"
  by (simp add: verdict_def reloadInternal_def canReload_tested Let_def split_def
        unloadInternal_keeps loadInternal_keeps split: sum.splits)

lemma unload_verdict: "verdict (snd (snd (unload pf w s))) = verdict s"
  by (simp add: unload_def unloadInternal_verdict)

lemma reload_verdict:
  "reload_capability_tested (lib s) \<Longrightarrow> verdict (snd (snd (reload pf w s))) = verdict s"
  by (simp add: reload_def reloadInternal_verdict)

lemma touch_verdict:
  "reload_capability_tested (lib s) \<Longrightarrow> verdict (snd (snd (touch pf w s))) = verdict s"
proof -
  assume t: "reload_capability_tested (lib s)"
  let ?s1 = "s\<lparr>lib := (lib s)\<lparr>last_modified := fst (clock_now pf w)\<rparr>\<rparr>"
  have "reload_capability_tested (lib ?s1)" using t by simp
  then have "verdict (snd (snd (reloadInternal pf (snd (clock_now pf w)) ?s1))) = verdict ?s1"
    by (rule reloadInternal_verdict)
  then show ?thesis by (simp add: touch_def split_def Let_def verdict_def)
qed

lemma getSymbolInternal_verdict:
  "reload_capability_tested (lib s) \<Longrightarrow>
     verdict (snd (snd (getSymbolInternal pf w s n))) = verdict s"
proof -
  assume t: "reload_capability_tested (lib s)"
  have r: "verdict (snd (snd (reloadInternal pf v s))) = verdict s" for v
    using t by (rule reloadInternal_verdict)
  show ?thesis using r
    by (simp add: getSymbolInternal_def split_def verdict_def
          Implementation_getSymbolInternal_keeps split: sum.splits option.splits)
qed

lemma setAutoReload_verdict: "verdict (setAutoReload s m) = verdict s"
  by (simp add: verdict_def setAutoReload_def)

lemma checkForUpdates_verdict: "verdict (snd (snd (checkForUpdates pf w s))) = verdict s"
  by (simp add: checkForUpdates_def split_def)

lemma perform_verdict:
  "reload_capability_tested (lib (snd ws)) \<Longrightarrow>
     verdict (snd (perform pf ws op)) = verdict (snd ws)"
  by (cases ws; cases op)
     (simp_all add: load_verdict unload_verdict reload_verdict getSymbolInternal_verdict
        touch_verdict canReload_tested checkForUpdates_verdict setAutoReload_verdict)

lemma perform_all_verdict:
  "reload_capability_tested (lib (snd ws)) \<Longrightarrow>
     verdict (snd (perform_all pf ws ops)) = verdict (snd ws)"
proof (induction ops arbitrary: ws)
  case Nil
  show ?case by (simp add: perform_all_def)
next
  case (Cons op ops)
  have v: "verdict (snd (perform pf ws op)) = verdict (snd ws)"
    using Cons.prems by (rule perform_verdict)
  then have "reload_capability_tested (lib (snd (perform pf ws op)))"
    using Cons.prems by (simp add: verdict_def)
  from Cons.IH [OF this] v show ?case by (simp add: perform_all_def)
qed

section \<open>Operations that do not probe\<close>

lemma with_residency_check_simps:
  "ifstream_good (with_residency_check g pf) = ifstream_good pf"
  "stat_mtime (with_residency_check g pf) = stat_mtime pf"
  "clock_now (with_residency_check g pf) = clock_now pf"
  "dlopen (with_residency_check g pf) p RTLD_NOW_LOCAL = dlopen pf p RTLD_NOW_LOCAL"
  "dlopen (with_residency_check g pf) p RTLD_NOW_NOLOAD = g p"
  "dlclose (with_residency_check g pf) = dlclose pf"
  "dlsym (with_residency_check g pf) = dlsym pf"
  "dlerror (with_residency_check g pf) = dlerror pf"
  "sleep_for (with_residency_check g pf) = sleep_for pf"
  by (simp_all add: with_residency_check_def)

lemma internal_no_probe:
  "validatePath (with_residency_check g pf) = validatePath pf"
  "getFileModificationTime (with_residency_check g pf) = getFileModificationTime pf"
  "dlerror_or_unknown (with_residency_check g pf) = dlerror_or_unknown pf"
  "loadInternal (with_residency_check g pf) = loadInternal pf"
  "unloadInternal (with_residency_check g pf) = unloadInternal pf"
  "Implementation_getSymbolInternal (with_residency_check g pf) =
     Implementation_getSymbolInternal pf"
  "needsReload (with_residency_check g pf) = needsReload pf"
  by (simp_all add: fun_eq_iff validatePath_def getFileModificationTime_def
        dlerror_or_unknown_def loadInternal_def unloadInternal_def
        Implementation_getSymbolInternal_def needsReload_def with_residency_check_simps
        split_def Let_def split: option.splits)

lemma load_no_probe: "load (with_residency_check g pf) = load pf"
  by (simp add: fun_eq_iff load_def internal_no_probe split_def split: sum.splits)

lemma unload_no_probe: "unload (with_residency_check g pf) = unload pf"
  by (simp add: fun_eq_iff unload_def internal_no_probe)

lemma checkForUpdates_no_probe:
  "checkForUpdates (with_residency_check g pf) = checkForUpdates pf"
  by (simp add: fun_eq_iff checkForUpdates_def internal_no_probe)

lemma reloadInternal_no_probe:
  "reload_capability_tested (lib s) \<Longrightarrow>
     reloadInternal (with_residency_check g pf) w s = reloadInternal pf w s"
  by (simp add: reloadInternal_def canReload_tested internal_no_probe with_residency_check_simps
        split_def Let_def split: sum.splits)

lemma perform_no_probe:
  "reload_capability_tested (lib (snd ws)) \<Longrightarrow>
     perform (with_residency_check g pf) ws op = perform pf ws op"
  by (cases ws; cases op)
     (simp_all add: load_no_probe unload_no_probe checkForUpdates_no_probe
        reloadInternal_no_probe canReload_tested reload_def touch_def getSymbolInternal_def
        internal_no_probe with_residency_check_simps split_def Let_def
        split: sum.splits option.splits)

lemma perform_all_no_probe:
  "reload_capability_tested (lib (snd ws)) \<Longrightarrow>
     perform_all (with_residency_check g pf) ws ops = perform_all pf ws ops"
proof (induction ops arbitrary: ws)
  case Nil
  show ?case by (simp add: perform_all_def)
next
  case (Cons op ops)
  have e: "perform (with_residency_check g pf) ws op = perform pf ws op"
    using Cons.prems by (rule perform_no_probe)
  have "verdict (snd (perform pf ws op)) = verdict (snd ws)"
    using Cons.prems by (rule perform_verdict)
  then have "reload_capability_tested (lib (snd (perform pf ws op)))"
    using Cons.prems by (simp add: verdict_def)
  from Cons.IH [OF this] e show ?case by (simp add: perform_all_def)
qed

lemma getSymbolInternal_same:
  assumes "handle (lib s) \<noteq> 0 \<Longrightarrow> auto_reload s = Enabled \<Longrightarrow> fst (needsReload pf w s) \<Longrightarrow>
     reloadInternal (with_residency_check g pf) (snd (needsReload pf w s)) s =
     reloadInternal pf (snd (needsReload pf w s)) s"
  shows "getSymbolInternal (with_residency_check g pf) w s n = getSymbolInternal pf w s n"
proof (cases "handle (lib s) \<noteq> 0 \<and> auto_reload s = Enabled \<and> fst (needsReload pf w s)")
  case True
  with assms have e: "reloadInternal (with_residency_check g pf) (snd (needsReload pf w s)) s =
     reloadInternal pf (snd (needsReload pf w s)) s" by simp
  show ?thesis
    unfolding getSymbolInternal_def internal_no_probe
    using True by (simp add: e split_def split: sum.splits)
next
  case False
  show ?thesis
    unfolding getSymbolInternal_def internal_no_probe
    using False by (auto simp add: split_def split: sum.splits)
qed

lemma getSymbolInternal_tested:
  "handle (lib s) \<noteq> 0 \<Longrightarrow> auto_reload s = Enabled \<Longrightarrow> fst (needsReload pf w s) \<Longrightarrow>
   reload_capability_tested (lib (snd (snd (getSymbolInternal pf w s n)))) =
   reload_capability_tested (lib (snd (snd (reloadInternal pf (snd (needsReload pf w s)) s))))"
  by (simp add: getSymbolInternal_def split_def Implementation_getSymbolInternal_keeps
        split: sum.splits option.splits)

lemma canReload_no_probe:
  "handle (lib s) = 0 \<or> reload_capability_tested (lib s) \<Longrightarrow>
     canReload (with_residency_check g pf) w s = canReload pf w s"
  by (auto simp add: canReload_def)

lemma canReload_tested_after:
  "reload_capability_tested (lib (snd (snd (canReload pf w s)))) =
     (reload_capability_tested (lib s) \<or> handle (lib s) \<noteq> 0)"
  by (simp add: canReload_def Let_def split_def)

lemma reloadInternal_tested:
  "reload_capability_tested (lib (snd (snd (reloadInternal pf w s)))) =
     (reload_capability_tested (lib s) \<or> handle (lib s) \<noteq> 0)"
  by (simp add: reloadInternal_def canReload_tested_after Let_def split_def unloadInternal_keeps
        loadInternal_keeps split: sum.splits)

lemma reloadInternal_unprobed:
  assumes "\<not> reload_capability_tested (lib (snd (snd (reloadInternal pf w s))))"
  shows "reloadInternal (with_residency_check g pf) w s = reloadInternal pf w s"
proof -
  have "handle (lib s) = 0 \<or> reload_capability_tested (lib s)"
    using assms by (simp add: reloadInternal_tested)
  then have c: "canReload (with_residency_check g pf) w s = canReload pf w s"
    by (rule canReload_no_probe)
  show ?thesis
    unfolding reloadInternal_def c internal_no_probe with_residency_check_simps ..
qed

lemma reload_unprobed:
  "\<not> reload_capability_tested (lib (snd (snd (reload pf w s)))) \<Longrightarrow>
     reload (with_residency_check g pf) w s = reload pf w s"
  by (simp add: reload_def reloadInternal_unprobed split: if_splits)

lemma touch_unprobed:
  assumes "\<not> reload_capability_tested (lib (snd (snd (touch pf w s))))"
  shows "touch (with_residency_check g pf) w s = touch pf w s"
proof (cases "auto_reload s = Enabled")
  case True
  let ?s1 = "s\<lparr>lib := (lib s)\<lparr>last_modified := fst (clock_now pf w)\<rparr>\<rparr>"
  have "\<not> reload_capability_tested
      (lib (snd (snd (reloadInternal pf (snd (clock_now pf w)) ?s1))))"
    using assms True by (simp add: touch_def split_def Let_def)
  then have "reloadInternal (with_residency_check g pf) (snd (clock_now pf w)) ?s1 =
      reloadInternal pf (snd (clock_now pf w)) ?s1"
    by (rule reloadInternal_unprobed)
  then show ?thesis using True
    by (simp add: touch_def split_def Let_def with_residency_check_simps)
next
  case False
  then show ?thesis by (simp add: touch_def split_def Let_def with_residency_check_simps)
qed

lemma canReload_unprobed:
  assumes "\<not> reload_capability_tested (lib (snd (snd (canReload pf w s))))"
  shows "canReload (with_residency_check g pf) w s = canReload pf w s"
proof -
  have "handle (lib s) = 0 \<or> reload_capability_tested (lib s)"
    using assms canReload_sets [of s pf w] by auto
  then show ?thesis by (rule canReload_no_probe)
qed

lemma getSymbolInternal_unprobed:
  assumes "\<not> reload_capability_tested (lib (snd (snd (getSymbolInternal pf w s n))))"
  shows "getSymbolInternal (with_residency_check g pf) w s n = getSymbolInternal pf w s n"
proof (rule getSymbolInternal_same)
  assume "handle (lib s) \<noteq> 0" "auto_reload s = Enabled" "fst (needsReload pf w s)"
  then have "\<not> reload_capability_tested
      (lib (snd (snd (reloadInternal pf (snd (needsReload pf w s)) s))))"
    using assms getSymbolInternal_tested [of s pf w n] by simp
  then show "reloadInternal (with_residency_check g pf) (snd (needsReload pf w s)) s =
      reloadInternal pf (snd (needsReload pf w s)) s"
    by (rule reloadInternal_unprobed)
qed

lemma perform_unprobed:
  "\<not> reload_capability_tested (lib (snd (perform pf ws op))) \<Longrightarrow>
     perform (with_residency_check g pf) ws op = perform pf ws op"
  by (cases ws; cases op)
     (simp_all add: load_no_probe unload_no_probe checkForUpdates_no_probe reload_unprobed
        touch_unprobed canReload_unprobed getSymbolInternal_unprobed)

lemma perform_all_unprobed:
  "\<not> reload_capability_tested (lib (snd (perform_all pf ws ops))) \<Longrightarrow>
     perform_all (with_residency_check g pf) ws ops = perform_all pf ws ops"
proof (induction ops arbitrary: ws)
  case Nil
  show ?case by (simp add: perform_all_def)
next
  case (Cons op ops)
  have rest: "perform_all pf ws (op # ops) = perform_all pf (perform pf ws op) ops"
    and rest': "perform_all (with_residency_check g pf) ws (op # ops) =
      perform_all (with_residency_check g pf) (perform (with_residency_check g pf) ws op) ops"
    by (simp_all add: perform_all_def)
  have "\<not> reload_capability_tested (lib (snd (perform pf ws op)))"
  proof
    assume t: "reload_capability_tested (lib (snd (perform pf ws op)))"
    then have "verdict (snd (perform_all pf (perform pf ws op) ops)) =
        verdict (snd (perform pf ws op))"
      by (rule perform_all_verdict)
    with t Cons.prems show False by (simp add: rest verdict_def)
  qed
  then have e: "perform (with_residency_check g pf) ws op = perform pf ws op"
    by (rule perform_unprobed)
  from Cons.prems have "\<not> reload_capability_tested
      (lib (snd (perform_all pf (perform pf ws op) ops)))"
    by (simp add: rest)
  from Cons.IH [OF this] e show ?case by (simp add: rest rest')
qed

lemmas op_defs = perform_all_def load_def unload_def reload_def touch_def checkForUpdates_def
  getSymbolInternal_def

section \<open>\<^verbatim>\<open>getSymbol\<close>: misses, null results and the reload before the lookup\<close>

lemma getSymbolInternal_null_not_cached:
  assumes "getSymbolInternal pf w s n = (Inr 0, w1, s1)" and "symbol_cache (lib s) n = None"
  shows "symbol_cache (lib s1) n = None"
proof (cases "handle (lib s) \<noteq> 0 \<and> auto_reload s = Enabled \<and> fst (needsReload pf w s)")
  case True
  let ?r = "reloadInternal pf (snd (needsReload pf w s)) s"
  have c: "symbol_cache (lib (snd (snd ?r))) n = None"
    using assms(2) by (simp add: reloadInternal_cache)
  show ?thesis using True assms(1) c
    by (auto simp add: getSymbolInternal_def split_def
          Implementation_getSymbolInternal_keeps split: sum.splits option.splits if_splits)
next
  case False
  then show ?thesis using assms
    by (auto simp add: getSymbolInternal_def split_def
          Implementation_getSymbolInternal_keeps split: sum.splits option.splits if_splits)
qed

lemma getSymbolInternal_miss:
  assumes "handle (lib s) \<noteq> 0" and "symbol_cache (lib s) n = None"
  shows "auto_reload s = Disabled \<Longrightarrow>
     getSymbolInternal pf w s n =
       (case Implementation_getSymbolInternal pf w s n of
          (symbol, w3, s3) \<Rightarrow>
            (Inr symbol, w3,
             if symbol \<noteq> 0 then
               s3\<lparr>lib := (lib s3)\<lparr>symbol_cache := (symbol_cache (lib s3))(n \<mapsto> symbol)\<rparr>\<rparr>
             else s3))"
    and "auto_reload s = Enabled \<and> \<not> fst (needsReload pf w s) \<Longrightarrow>
     getSymbolInternal pf w s n =
       (case Implementation_getSymbolInternal pf (snd (needsReload pf w s)) s n of
          (symbol, w3, s3) \<Rightarrow>
            (Inr symbol, w3,
             if symbol \<noteq> 0 then
               s3\<lparr>lib := (lib s3)\<lparr>symbol_cache := (symbol_cache (lib s3))(n \<mapsto> symbol)\<rparr>\<rparr>
             else s3))"
  using assms by (simp_all add: getSymbolInternal_def split_def)

lemma sim_getSymbol_sub:
  "getSymbolInternal sim w_loaded s_loaded ''sub'' = (Inr 0, w_missed, s_missed)"
  "getSymbolInternal sim w_loaded (setAutoReload s_loaded Disabled) ''sub'' =
     (Inr 0, w_missed, setAutoReload s_missed Disabled)"
  by (simp_all add: getSymbolInternal_def setAutoReload_def run_defs sim_defs w_loaded_def
        s_loaded_def w_missed_def s_missed_def)

text \<open>
  On a loaded object with auto-reload enabled and the file newer than the baseline,
  \<^verbatim>\<open>getSymbol\<close> is one \<^verbatim>\<open>reloadInternal\<close> followed, when that returned true, by one
  platform lookup on the emptied cache; when it returned false the result is null with
  the state of the reload; what the reload raises is passed on. With auto-reload disabled
  a cached name is answered with world and object unchanged.
\<close>

lemma getSymbolInternal_auto_reload:
  "(handle (lib s) \<noteq> 0 \<and> auto_reload s = Enabled \<and> fst (needsReload pf w s) \<and>
    reloadInternal pf (snd (needsReload pf w s)) s = (r, w2, s2) \<longrightarrow>
      (case r of
         Inl e \<Rightarrow> getSymbolInternal pf w s n = (Inl e, w2, s2)
       | Inr reloaded \<Rightarrow>
           if reloaded then
             handle (lib s2) \<noteq> 0 \<and> symbol_cache (lib s2) = Map.empty \<and>
             getSymbolInternal pf w s n =
               (case Implementation_getSymbolInternal pf w2 s2 n of
                  (symbol, w3, s3) \<Rightarrow>
                    (Inr symbol, w3,
                     if symbol \<noteq> 0 then
                       s3\<lparr>lib := (lib s3)\<lparr>symbol_cache := [n \<mapsto> symbol]\<rparr>\<rparr>
                     else s3))
           else getSymbolInternal pf w s n = (Inr 0, w2, s2))) \<and>
   (handle (lib s) \<noteq> 0 \<and> auto_reload s = Disabled \<and> symbol_cache (lib s) n = Some a \<longrightarrow>
      getSymbolInternal pf w s n = (Inr a, w, s))"
proof (intro conjI impI)
  assume "handle (lib s) \<noteq> 0 \<and> auto_reload s = Disabled \<and> symbol_cache (lib s) n = Some a"
  then show "getSymbolInternal pf w s n = (Inr a, w, s)"
    by (simp add: getSymbolInternal_def)
next
  assume a: "handle (lib s) \<noteq> 0 \<and> auto_reload s = Enabled \<and> fst (needsReload pf w s) \<and>
    reloadInternal pf (snd (needsReload pf w s)) s = (r, w2, s2)"
  then have run: "reloadInternal pf (snd (needsReload pf w s)) s = (r, w2, s2)" by simp
  have empty: "symbol_cache (lib s2) = Map.empty \<and> handle (lib s2) \<noteq> 0" if "r = Inr True"
    using that a reloadInternal_True [of pf "snd (needsReload pf w s)" s]
      reloadInternal_cache [of pf "snd (needsReload pf w s)" s]
    by simp
  have keeps: "symbol_cache (lib (snd (snd (Implementation_getSymbolInternal pf w2 s2 n)))) =
      symbol_cache (lib s2)"
    by (simp add: Implementation_getSymbolInternal_keeps)
  show "case r of
         Inl e \<Rightarrow> getSymbolInternal pf w s n = (Inl e, w2, s2)
       | Inr reloaded \<Rightarrow>
           if reloaded then
             handle (lib s2) \<noteq> 0 \<and> symbol_cache (lib s2) = Map.empty \<and>
             getSymbolInternal pf w s n =
               (case Implementation_getSymbolInternal pf w2 s2 n of
                  (symbol, w3, s3) \<Rightarrow>
                    (Inr symbol, w3,
                     if symbol \<noteq> 0 then
                       s3\<lparr>lib := (lib s3)\<lparr>symbol_cache := [n \<mapsto> symbol]\<rparr>\<rparr>
                     else s3))
           else getSymbolInternal pf w s n = (Inr 0, w2, s2)"
    using a empty keeps
    by (auto simp add: getSymbolInternal_def split_def split: sum.splits)
qed

lemma sim_auto_reload_runs:
  "handle (lib s_cached) \<noteq> 0 \<and> auto_reload s_cached = Enabled \<and>
   symbol_cache (lib s_cached) ''add'' = Some 4096 \<and>
   fst (needsReload sim (w_cached\<lparr>sim_mtime := 60\<rparr>) s_cached) \<and>
   fst (reloadInternal sim (w_cached\<lparr>sim_mtime := 60\<rparr>) s_cached) = Inr True \<and>
   fst (getSymbolInternal sim (w_cached\<lparr>sim_mtime := 60\<rparr>) s_cached ''add'') = Inr 4096 \<and>
   sim_calls (fst (snd (getSymbolInternal sim (w_cached\<lparr>sim_mtime := 60\<rparr>) s_cached ''add''))) =
     [Call_dlsym 1 ''add'', Call_dlopen ''./libexample.so'' RTLD_NOW_LOCAL, Call_dlclose 1,
      Call_dlclose 1, Call_dlopen ''./libexample.so'' RTLD_NOW_NOLOAD] @ sim_calls w_cached \<and>
   fst (reloadInternal sim (w_cached\<lparr>sim_mtime := 60, sim_close_fails := True\<rparr>) s_cached) =
     Inr False \<and>
   fst (getSymbolInternal sim (w_cached\<lparr>sim_mtime := 60, sim_close_fails := True\<rparr>) s_cached
          ''add'') = Inr 0 \<and>
   error_message
     (snd (snd (getSymbolInternal sim (w_cached\<lparr>sim_mtime := 60, sim_close_fails := True\<rparr>)
                  s_cached ''add''))) =
     ''Library cannot be reloaded - reload capability not supported'' \<and>
   canReload sim w_cached s_cached = (True, w_probed, s_probed) \<and>
   fst (reloadInternal sim (w_probed\<lparr>sim_mtime := 60, sim_close_fails := True\<rparr>) s_probed) =
     Inl std_logic_error \<and>
   fst (getSymbolInternal sim (w_probed\<lparr>sim_mtime := 60, sim_close_fails := True\<rparr>) s_probed
          ''add'') = Inl std_logic_error \<and>
   getSymbolInternal sim (w_cached\<lparr>sim_mtime := 60\<rparr>) (setAutoReload s_cached Disabled) ''add'' =
     (Inr 4096, w_cached\<lparr>sim_mtime := 60\<rparr>, setAutoReload s_cached Disabled)"
proof -
  let ?w = "w_cached\<lparr>sim_mtime := 60\<rparr>"
  let ?v = "w_cached\<lparr>sim_mtime := 60, sim_close_fails := True\<rparr>"
  let ?u = "w_probed\<lparr>sim_mtime := 60, sim_close_fails := True\<rparr>"
  have same: "snd (needsReload sim ?w s_cached) = ?w" "snd (needsReload sim ?v s_cached) = ?v"
    "snd (needsReload sim ?u s_probed) = ?u"
    by (simp_all add: run_defs sim_defs s_cached_def s_probed_def)
  have pre: "handle (lib s_cached) \<noteq> 0" "auto_reload s_cached = Enabled"
    "symbol_cache (lib s_cached) ''add'' = Some 4096"
    "fst (needsReload sim ?w s_cached)" "fst (needsReload sim ?v s_cached)"
    "handle (lib s_probed) \<noteq> 0" "auto_reload s_probed = Enabled"
    "fst (needsReload sim ?u s_probed)"
    by (simp_all add: run_defs sim_defs s_cached_def w_cached_def s_probed_def w_probed_def)
  have ok: "fst (reloadInternal sim ?w s_cached) = Inr True"
    and no: "fst (reloadInternal sim ?v s_cached) = Inr False"
    and ex: "fst (reloadInternal sim ?u s_probed) = Inl std_logic_error"
    by (simp_all add: run_defs sim_defs s_cached_def w_cached_def s_probed_def w_probed_def)
  note one = getSymbolInternal_auto_reload [where pf = sim and w = ?w and s = s_cached and n = "''add''"
      and r = "fst (reloadInternal sim ?w s_cached)"
      and ?w2.0 = "fst (snd (reloadInternal sim ?w s_cached))"
      and ?s2.0 = "snd (snd (reloadInternal sim ?w s_cached))"
      and a = 4096, unfolded same]
  note two = getSymbolInternal_auto_reload [where pf = sim and w = ?v and s = s_cached and n = "''add''"
      and r = "fst (reloadInternal sim ?v s_cached)"
      and ?w2.0 = "fst (snd (reloadInternal sim ?v s_cached))"
      and ?s2.0 = "snd (snd (reloadInternal sim ?v s_cached))"
      and a = 4096, unfolded same]
  note three = getSymbolInternal_auto_reload [where pf = sim and w = ?w and s = "setAutoReload s_cached Disabled"
      and n = "''add''" and a = 4096
      and r = "fst (reloadInternal sim ?w s_cached)"
      and ?w2.0 = "fst (snd (reloadInternal sim ?w s_cached))"
      and ?s2.0 = "snd (snd (reloadInternal sim ?w s_cached))"]
  note four = getSymbolInternal_auto_reload [where pf = sim and w = ?u and s = s_probed and n = "''add''"
      and r = "fst (reloadInternal sim ?u s_probed)"
      and ?w2.0 = "fst (snd (reloadInternal sim ?u s_probed))"
      and ?s2.0 = "snd (snd (reloadInternal sim ?u s_probed))"
      and a = 4096, unfolded same]
  have fresh: "getSymbolInternal sim ?w s_cached ''add'' =
      (case Implementation_getSymbolInternal sim (fst (snd (reloadInternal sim ?w s_cached)))
              (snd (snd (reloadInternal sim ?w s_cached))) ''add'' of
         (symbol, w3, s3) \<Rightarrow>
           (Inr symbol, w3,
            if symbol \<noteq> 0 then s3\<lparr>lib := (lib s3)\<lparr>symbol_cache := [''add'' \<mapsto> symbol]\<rparr>\<rparr>
            else s3))"
    using one pre ok by (simp add: prod_eq_iff)
  have refused: "getSymbolInternal sim ?v s_cached ''add'' =
      (Inr 0, fst (snd (reloadInternal sim ?v s_cached)), snd (snd (reloadInternal sim ?v s_cached)))"
    using two pre no by (simp add: prod_eq_iff)
  have raised: "getSymbolInternal sim ?u s_probed ''add'' =
      (Inl std_logic_error, fst (snd (reloadInternal sim ?u s_probed)),
       snd (snd (reloadInternal sim ?u s_probed)))"
    using four pre ex by (simp add: prod_eq_iff)
  have disabled: "getSymbolInternal sim ?w (setAutoReload s_cached Disabled) ''add'' =
     (Inr 4096, ?w, setAutoReload s_cached Disabled)"
    using three by (simp add: setAutoReload_def s_cached_def)
  show ?thesis
    unfolding fresh refused raised disabled sim_probe_passed
    by (simp add: run_defs sim_defs s_cached_def w_cached_def s_probed_def w_probed_def)
qed

section \<open>The claims\<close>



text \<open>
  C2, as stated: every fresh successful load resets \<^verbatim>\<open>reload_capability_tested\<close>, so the
  next \<^verbatim>\<open>canReload\<close> probes the module of the current load. The code never resets the
  flag. In the run below \<^verbatim>\<open>./libexample.so\<close> is loaded and probed while \<^verbatim>\<open>dlclose\<close>
  fails (verdict false); then \<^verbatim>\<open>./libgood.so\<close> is loaded successfully into the same
  object. The flag is still set, \<^verbatim>\<open>canReload\<close> returns the old verdict and calls
  nothing of the platform, although a probe of the module now loaded would answer true.
\<close>

theorem C2_counterexample:
  "load sim sim_start DynamicLibrary_default ''./libexample.so'' Enabled =
     (Inr True, w_loaded, s_loaded) \<and>
   canReload sim (w_loaded\<lparr>sim_close_fails := True\<rparr>) s_loaded =
     (False, w_refused, s_refused) \<and>
   load sim (w_refused\<lparr>sim_close_fails := False\<rparr>) s_refused ''./libgood.so'' Enabled =
     (Inr True, w_second, s_second) \<and>
   reload_capability_tested (lib s_second) \<and>
   canReload sim w_second s_second = (False, w_second, s_second) \<and>
   fst (canReload sim w_second
          (s_second\<lparr>lib := (lib s_second)\<lparr>reload_capability_tested := False\<rparr>\<rparr>))"
  by (simp add: sim_load_example sim_probe_refused sim_load_second)
     (simp add: canReload_def sim_defs w_second_def s_second_def Let_def)

text \<open>
  C2, amended. The verdict is computed at most once in the life of the object. A
  \<^verbatim>\<open>canReload\<close> on a loaded object leaves \<^verbatim>\<open>reload_capability_tested\<close> set, and with
  the flag set \<^verbatim>\<open>canReload\<close> returns the stored verdict and leaves world and object as
  they were. Once the flag is set, no operation changes flag or verdict: not \<^verbatim>\<open>load\<close>
  (which never changes them, and resets the symbol cache), \<^verbatim>\<open>unload\<close>,
  \<^verbatim>\<open>reload\<close>, \<^verbatim>\<open>getSymbol\<close>, \<^verbatim>\<open>touch\<close>, \<^verbatim>\<open>canReload\<close>,
  \<^verbatim>\<open>checkForUpdates\<close> or \<^verbatim>\<open>setAutoReload\<close>, and so no sequence of them, whatever the
  environment does in between. After such a sequence \<^verbatim>\<open>canReload\<close> still returns the
  verdict of the earlier probe, and the sequence has not probed: it runs the same on a
  platform that answers the residency check of a probe differently. A sequence that
  leaves the flag unset has not probed either, so a probe runs only while the flag is
  unset and sets it.
\<close>

theorem C2_verdict_cached_for_the_object:
  "(reload_capability_tested (lib s) \<longrightarrow> canReload pf w s = (can_reload (lib s), w, s)) \<and>
   (handle (lib s) \<noteq> 0 \<longrightarrow> reload_capability_tested (lib (snd (snd (canReload pf w s))))) \<and>
   reload_capability_tested (lib (snd (snd (load pf w s p m)))) =
     reload_capability_tested (lib s) \<and>
   can_reload (lib (snd (snd (load pf w s p m)))) = can_reload (lib s) \<and>
   (cache_invariant s \<longrightarrow> symbol_cache (lib (snd (snd (load pf w s p m)))) = Map.empty) \<and>
   (reload_capability_tested (lib s) \<longrightarrow>
      canReload pf w' (snd (snd (load pf w s p m))) =
        (can_reload (lib s), w', snd (snd (load pf w s p m)))) \<and>
   (reload_capability_tested (lib s) \<longrightarrow>
      verdict (snd (snd (load pf w s p m))) = verdict s \<and>
      verdict (snd (snd (unload pf w s))) = verdict s \<and>
      verdict (snd (snd (reload pf w s))) = verdict s \<and>
      verdict (snd (snd (getSymbolInternal pf w s n))) = verdict s \<and>
      verdict (snd (snd (touch pf w s))) = verdict s \<and>
      verdict (snd (snd (canReload pf w s))) = verdict s \<and>
      verdict (snd (snd (checkForUpdates pf w s))) = verdict s \<and>
      verdict (setAutoReload s m) = verdict s \<and>
      verdict (snd (perform_all pf (w, s) ops)) = verdict s \<and>
      canReload pf w' (snd (perform_all pf (w, s) ops)) =
        (can_reload (lib s), w', snd (perform_all pf (w, s) ops)) \<and>
      perform_all (with_residency_check g pf) (w, s) ops = perform_all pf (w, s) ops) \<and>
   (\<not> reload_capability_tested (lib (snd (perform_all pf (w, s) ops))) \<longrightarrow>
      perform_all (with_residency_check g pf) (w, s) ops = perform_all pf (w, s) ops)"
proof -
  have flags:
    "reload_capability_tested (lib (snd (snd (load pf w s p m)))) =
       reload_capability_tested (lib s)"
    "can_reload (lib (snd (snd (load pf w s p m)))) = can_reload (lib s)"
    using load_verdict [of pf w s p m] by (simp_all add: verdict_def)
  have sets: "reload_capability_tested (lib (snd (snd (canReload pf w s))))"
    if "handle (lib s) \<noteq> 0"
    using that by (rule canReload_sets)
  have later: "canReload pf w' (snd (perform_all pf (w, s) ops)) =
        (can_reload (lib s), w', snd (perform_all pf (w, s) ops))"
    if t: "reload_capability_tested (lib s)"
  proof -
    have "verdict (snd (perform_all pf (w, s) ops)) = verdict s"
      using perform_all_verdict [of "(w, s)" pf ops] t by simp
    then have "reload_capability_tested (lib (snd (perform_all pf (w, s) ops)))"
      and "can_reload (lib (snd (perform_all pf (w, s) ops))) = can_reload (lib s)"
      using t by (simp_all add: verdict_def)
    then show ?thesis using canReload_tested [of "snd (perform_all pf (w, s) ops)" pf w']
      by simp
  qed
  show ?thesis
    using flags sets later canReload_tested [of s pf w]
      canReload_tested [of "snd (snd (load pf w s p m))" pf w']
      load_cache_empty [of s pf w p m]
      perform_all_verdict [of "(w, s)" pf ops] perform_all_no_probe [of "(w, s)" g pf ops]
      perform_all_unprobed [of pf "(w, s)" ops g]
    by (simp add: load_verdict unload_verdict reload_verdict getSymbolInternal_verdict
          touch_verdict checkForUpdates_verdict setAutoReload_verdict)
qed

theorem C2_verdict_cached_for_the_object_witness:
  "handle (lib s_loaded) \<noteq> 0 \<and> cache_invariant s_refused \<and>
   reload_capability_tested (lib s_refused) \<and>
   reload_capability_tested
     (lib (snd (snd (canReload sim (w_loaded\<lparr>sim_close_fails := True\<rparr>) s_loaded)))) \<and>
   canReload sim w_refused s_refused = (False, w_refused, s_refused) \<and>
   reload_capability_tested (lib s_second) \<and> \<not> can_reload (lib s_second) \<and>
   symbol_cache (lib s_second) = Map.empty \<and>
   canReload sim w_second s_second = (False, w_second, s_second) \<and>
   verdict s_refused = (True, False) \<and>
   verdict (snd (perform_all sim (w_refused, s_refused) later_calls)) = (True, False) \<and>
   handle (lib (snd (perform_all sim (w_refused, s_refused) later_calls))) = 2 \<and>
   sim_calls (fst (perform_all sim (w_refused, s_refused) later_calls)) =
     [Call_dlsym 2 ''add'', Call_dlopen ''./libgood.so'' RTLD_NOW_LOCAL, Call_dlclose 1] @
     sim_calls w_refused \<and>
   canReload sim w_second (snd (perform_all sim (w_refused, s_refused) later_calls)) =
     (False, w_second, snd (perform_all sim (w_refused, s_refused) later_calls)) \<and>
   perform_all (with_residency_check (\<lambda>p w. (0, w)) sim) (w_refused, s_refused) later_calls =
     perform_all sim (w_refused, s_refused) later_calls \<and>
   \<not> reload_capability_tested (lib (snd (perform_all sim (w_loaded, s_loaded) quiet_calls))) \<and>
   perform_all (with_residency_check (\<lambda>p w. (0, w)) sim) (w_loaded, s_loaded) quiet_calls =
     perform_all sim (w_loaded, s_loaded) quiet_calls"
proof -
  have h: "handle (lib s_loaded) \<noteq> 0" by (simp add: s_loaded_def)
  have t: "reload_capability_tested (lib s_refused)" and v: "\<not> can_reload (lib s_refused)"
    and i: "cache_invariant s_refused" and vv: "verdict s_refused = (True, False)"
    by (simp_all add: s_refused_def cache_invariant_def verdict_def)
  have q: "\<not> reload_capability_tested
      (lib (snd (perform_all sim (w_loaded, s_loaded) quiet_calls)))"
    by (simp add: op_defs quiet_calls_def run_defs sim_defs w_loaded_def s_loaded_def)
  have l: "handle (lib (snd (perform_all sim (w_refused, s_refused) later_calls))) = 2"
    "sim_calls (fst (perform_all sim (w_refused, s_refused) later_calls)) =
     [Call_dlsym 2 ''add'', Call_dlopen ''./libgood.so'' RTLD_NOW_LOCAL, Call_dlclose 1] @
     sim_calls w_refused"
    by (simp_all add: op_defs later_calls_def run_defs sim_defs w_refused_def s_refused_def)
  show ?thesis
    using h t v i vv q l
      C2_verdict_cached_for_the_object
        [where s = s_loaded and pf = sim and w = "w_loaded\<lparr>sim_close_fails := True\<rparr>"
           and p = "''./libgood.so''" and m = Enabled and w' = w_second and n = "''add''"
           and ops = quiet_calls and g = "\<lambda>p w. (0, w)"]
      C2_verdict_cached_for_the_object
        [where s = s_refused and pf = sim and w = "w_refused\<lparr>sim_close_fails := False\<rparr>"
           and p = "''./libgood.so''" and m = Enabled and w' = w_second and n = "''add''"
           and ops = later_calls and g = "\<lambda>p w. (0, w)"]
      C2_verdict_cached_for_the_object
        [where s = s_refused and pf = sim and w = w_refused
           and p = "''./libgood.so''" and m = Enabled and w' = w_second and n = "''add''"
           and ops = later_calls and g = "\<lambda>p w. (0, w)"]
      C2_verdict_cached_for_the_object
        [where s = s_loaded and pf = sim and w = w_loaded
           and p = "''./libgood.so''" and m = Enabled and w' = w_second and n = "''add''"
           and ops = quiet_calls and g = "\<lambda>p w. (0, w)"]
    by (simp add: sim_load_second)
qed

text \<open>
  C3. Whenever the handle is null the symbol cache is empty: the default object satisfies
  this, and \<^verbatim>\<open>load\<close>, \<^verbatim>\<open>unload\<close>, \<^verbatim>\<open>reload\<close>, \<^verbatim>\<open>getSymbol\<close> and
  \<^verbatim>\<open>touch\<close> keep it, whatever the platform answers and also when the operation raises.
  \<^verbatim>\<open>isLoaded\<close> is exactly "the handle is not null". After \<^verbatim>\<open>unload\<close> the cache is
  empty whether or not the platform unloader succeeded, and on a loaded object the cache is
  cleared before the unloader is called: \<^verbatim>\<open>unload\<close> on the object equals
  \<^verbatim>\<open>unload\<close> on the object with its cache already emptied.
\<close>

theorem C3_cache_empty_when_unloaded:
  "cache_invariant DynamicLibrary_default \<and>
   (isLoaded s \<longleftrightarrow> handle (lib s) \<noteq> 0) \<and>
   (cache_invariant s \<longrightarrow>
      cache_invariant (snd (snd (load pf w s p m))) \<and>
      cache_invariant (snd (snd (unload pf w s))) \<and>
      cache_invariant (snd (snd (reload pf w s))) \<and>
      cache_invariant (snd (snd (getSymbolInternal pf w s n))) \<and>
      cache_invariant (snd (snd (touch pf w s))) \<and>
      symbol_cache (lib (snd (snd (unload pf w s)))) = Map.empty) \<and>
   (handle (lib s) \<noteq> 0 \<longrightarrow>
      unload pf w s = unload pf w (s\<lparr>lib := (lib s)\<lparr>symbol_cache := Map.empty\<rparr>\<rparr>))"
proof (intro conjI impI)
  show "cache_invariant DynamicLibrary_default"
    by (simp add: cache_invariant_def DynamicLibrary_default_def LibraryInfo_default_def)
  show "isLoaded s \<longleftrightarrow> handle (lib s) \<noteq> 0"
    by (simp add: isLoaded_def)
next
  assume "handle (lib s) \<noteq> 0"
  then show "unload pf w s = unload pf w (s\<lparr>lib := (lib s)\<lparr>symbol_cache := Map.empty\<rparr>\<rparr>)"
    by (rule unload_clears_first)
next
  assume inv: "cache_invariant s"
  show "cache_invariant (snd (snd (load pf w s p m)))" using inv by (rule load_invariant)
  show "cache_invariant (snd (snd (unload pf w s)))"
    unfolding unload_def using inv by (rule unloadInternal_invariant)
  show "cache_invariant (snd (snd (reload pf w s)))" using inv by (rule reload_invariant)
  show "cache_invariant (snd (snd (getSymbolInternal pf w s n)))"
    using inv by (rule getSymbolInternal_invariant)
  show "cache_invariant (snd (snd (touch pf w s)))" using inv by (rule touch_invariant)
  show "symbol_cache (lib (snd (snd (unload pf w s)))) = Map.empty"
    unfolding unload_def using inv by (rule unloadInternal_cache_empty)
qed

theorem C3_cache_empty_when_unloaded_witness:
  "cache_invariant s_cached \<and> handle (lib s_cached) \<noteq> 0 \<and>
   symbol_cache (lib s_cached) ''add'' = Some 4096 \<and>
   cache_invariant (snd (snd (load sim w_cached s_cached ''./nowhere.so'' Enabled))) \<and>
   cache_invariant (snd (snd (unload sim (w_cached\<lparr>sim_close_fails := True\<rparr>) s_cached))) \<and>
   cache_invariant (snd (snd (reload sim w_cached s_cached))) \<and>
   cache_invariant (snd (snd (getSymbolInternal sim w_cached s_cached ''sub''))) \<and>
   cache_invariant (snd (snd (touch sim w_cached s_cached))) \<and>
   symbol_cache (lib (snd (snd (unload sim (w_cached\<lparr>sim_close_fails := True\<rparr>) s_cached)))) =
     Map.empty \<and>
   unload sim w_cached s_cached =
     unload sim w_cached (s_cached\<lparr>lib := (lib s_cached)\<lparr>symbol_cache := Map.empty\<rparr>\<rparr>)"
proof -
  have inv: "cache_invariant s_cached" and h: "handle (lib s_cached) \<noteq> 0"
    and c: "symbol_cache (lib s_cached) ''add'' = Some 4096"
    by (simp_all add: cache_invariant_def s_cached_def)
  show ?thesis
    using inv h c
      C3_cache_empty_when_unloaded
        [where s = s_cached and pf = sim and w = w_cached and p = "''./nowhere.so''"
           and m = Enabled and n = "''sub''"]
      C3_cache_empty_when_unloaded
        [where s = s_cached and pf = sim and w = "w_cached\<lparr>sim_close_fails := True\<rparr>"
           and p = "''./nowhere.so''" and m = Enabled and n = "''sub''"]
    by blast
qed

text \<open>
  C4. The claim: with auto-reload enabled, a \<^verbatim>\<open>getSymbol\<close> after the file's timestamp
  advanced reloads once and returns a freshly resolved address, and when the reload fails
  it fails with the reload's error. The run: the object is loaded, has \<^verbatim>\<open>add\<close> in its
  cache and a passed probe; the file is then replaced by one that \<^verbatim>\<open>dlopen\<close> refuses
  with a message. \<^verbatim>\<open>getSymbol\<close> unloads the module and then raises out of
  \<^verbatim>\<open>loadInternal\<close>: it returns neither an address nor null, the object is left
  unloaded and no error message is stored. The same happens, with the module still
  counted as loaded, when the \<^verbatim>\<open>dlclose\<close> of the reload fails with a message.
\<close>

theorem C4_reload_failure_raises:
  "canReload sim w_cached s_cached = (True, w_probed, s_probed) \<and>
   handle (lib s_probed) \<noteq> 0 \<and> auto_reload s_probed = Enabled \<and>
   symbol_cache (lib s_probed) ''add'' = Some 4096 \<and>
   fst (needsReload sim_truncated (w_probed\<lparr>sim_mtime := 60\<rparr>) s_probed) \<and>
   fst (getSymbolInternal sim_truncated (w_probed\<lparr>sim_mtime := 60\<rparr>) s_probed ''add'') =
     Inl std_logic_error \<and>
   \<not> isLoaded
        (snd (snd (getSymbolInternal sim_truncated (w_probed\<lparr>sim_mtime := 60\<rparr>) s_probed
                     ''add''))) \<and>
   error_message
     (snd (snd (getSymbolInternal sim_truncated (w_probed\<lparr>sim_mtime := 60\<rparr>) s_probed
                  ''add''))) = [] \<and>
   sim_calls
     (fst (snd (getSymbolInternal sim_truncated (w_probed\<lparr>sim_mtime := 60\<rparr>) s_probed
                  ''add''))) =
     [Call_dlopen ''./libexample.so'' RTLD_NOW_LOCAL, Call_dlclose 1] @ sim_calls w_probed \<and>
   fst (getSymbolInternal sim (w_probed\<lparr>sim_mtime := 60, sim_close_fails := True\<rparr>) s_probed
          ''add'') = Inl std_logic_error \<and>
   error_message
     (snd (snd (getSymbolInternal sim (w_probed\<lparr>sim_mtime := 60, sim_close_fails := True\<rparr>)
                  s_probed ''add''))) = []"
  by (simp add: sim_probe_passed)
     (simp add: getSymbolInternal_def isLoaded_def run_defs sim_truncated_def
        sim_dlopen_refused_def sim_defs w_probed_def s_probed_def)

text \<open>
  C5, as stated: on every loaded handle the second of two consecutive \<^verbatim>\<open>getSymbol\<close> calls
  for the same name performs no platform resolution. Only a non-null result is cached
  (\<^verbatim>\<open>if (symbol)\<close>): for a name the module does not export both calls return null and the
  second one calls \<^verbatim>\<open>dlsym\<close> again, with no reload in between.
\<close>

theorem C5_counterexample:
  "handle (lib s_loaded) \<noteq> 0 \<and>
   getSymbolInternal sim w_loaded s_loaded ''sub'' = (Inr 0, w_missed, s_missed) \<and>
   sim_calls w_missed = Call_dlsym 1 ''sub'' # sim_calls w_loaded \<and>
   \<not> fst (needsReload sim w_missed s_missed) \<and>
   fst (getSymbolInternal sim w_missed s_missed ''sub'') = Inr 0 \<and>
   sim_calls (fst (snd (getSymbolInternal sim w_missed s_missed ''sub''))) =
     Call_dlsym 1 ''sub'' # sim_calls w_missed"
  by (simp add: getSymbolInternal_def run_defs sim_defs w_loaded_def s_loaded_def
        w_missed_def s_missed_def)

text \<open>
  C5, amended. On an object with no module loaded \<^verbatim>\<open>getSymbol\<close> returns null and stores
  the message "Library not loaded". When a call returned a non-null address, the object
  is loaded and holds that address in its cache, and a following call for the same name
  that does not reload (auto-reload disabled, or the file not newer than the baseline)
  returns the same address and leaves the object as it was; the world is as it was
  (auto-reload disabled) or as the time query of \<^verbatim>\<open>needsReload\<close> left it, so the loader is
  not called. When a call for a name that was not in the cache returned null, the name is
  still not in the cache, and on a loaded object a following call that does not reload
  is the platform lookup \<^verbatim>\<open>Implementation::getSymbolInternal\<close> again.
\<close>

theorem C5_not_loaded_and_cache_hit:
  "(handle (lib s) = 0 \<longrightarrow>
      getSymbolInternal pf w s n = (Inr 0, w, s\<lparr>error_message := ''Library not loaded''\<rparr>)) \<and>
   (getSymbolInternal pf w s n = (Inr a, w1, s1) \<and> a \<noteq> 0 \<longrightarrow>
      handle (lib s1) \<noteq> 0 \<and> symbol_cache (lib s1) n = Some a \<and>
      (auto_reload s1 = Disabled \<longrightarrow> getSymbolInternal pf w' s1 n = (Inr a, w', s1)) \<and>
      (auto_reload s1 = Enabled \<and> \<not> fst (needsReload pf w' s1) \<longrightarrow>
         getSymbolInternal pf w' s1 n = (Inr a, snd (needsReload pf w' s1), s1))) \<and>
   (getSymbolInternal pf w s n = (Inr 0, w1, s1) \<and> symbol_cache (lib s) n = None \<longrightarrow>
      symbol_cache (lib s1) n = None \<and>
      (handle (lib s1) \<noteq> 0 \<and> auto_reload s1 = Disabled \<longrightarrow>
         getSymbolInternal pf w' s1 n =
           (case Implementation_getSymbolInternal pf w' s1 n of
              (symbol, w3, s3) \<Rightarrow>
                (Inr symbol, w3,
                 if symbol \<noteq> 0 then
                   s3\<lparr>lib := (lib s3)
                        \<lparr>symbol_cache := (symbol_cache (lib s3))(n \<mapsto> symbol)\<rparr>\<rparr>
                 else s3))) \<and>
      (handle (lib s1) \<noteq> 0 \<and> auto_reload s1 = Enabled \<and> \<not> fst (needsReload pf w' s1) \<longrightarrow>
         getSymbolInternal pf w' s1 n =
           (case Implementation_getSymbolInternal pf (snd (needsReload pf w' s1)) s1 n of
              (symbol, w3, s3) \<Rightarrow>
                (Inr symbol, w3,
                 if symbol \<noteq> 0 then
                   s3\<lparr>lib := (lib s3)
                        \<lparr>symbol_cache := (symbol_cache (lib s3))(n \<mapsto> symbol)\<rparr>\<rparr>
                 else s3))))"
proof (intro conjI impI)
  assume "handle (lib s) = 0"
  then show "getSymbolInternal pf w s n =
      (Inr 0, w, s\<lparr>error_message := ''Library not loaded''\<rparr>)"
    by (simp add: getSymbolInternal_def)
next
  assume first: "getSymbolInternal pf w s n = (Inr a, w1, s1) \<and> a \<noteq> 0"
  then have found: "handle (lib s1) \<noteq> 0 \<and> symbol_cache (lib s1) n = Some a"
    by (intro getSymbolInternal_found [of pf w s n a w1 s1]) simp_all
  show "handle (lib s1) \<noteq> 0" and "symbol_cache (lib s1) n = Some a"
    using found by simp_all
  show "getSymbolInternal pf w' s1 n = (Inr a, w', s1)" if "auto_reload s1 = Disabled"
    using that found by (simp add: getSymbolInternal_def)
  show "getSymbolInternal pf w' s1 n = (Inr a, snd (needsReload pf w' s1), s1)"
    if "auto_reload s1 = Enabled \<and> \<not> fst (needsReload pf w' s1)"
    using that found by (simp add: getSymbolInternal_def split_def)
next
  assume null: "getSymbolInternal pf w s n = (Inr 0, w1, s1) \<and> symbol_cache (lib s) n = None"
  then show miss: "symbol_cache (lib s1) n = None"
    using getSymbolInternal_null_not_cached [of pf w s n w1 s1] by simp
  show "getSymbolInternal pf w' s1 n =
           (case Implementation_getSymbolInternal pf w' s1 n of
              (symbol, w3, s3) \<Rightarrow>
                (Inr symbol, w3,
                 if symbol \<noteq> 0 then
                   s3\<lparr>lib := (lib s3)
                        \<lparr>symbol_cache := (symbol_cache (lib s3))(n \<mapsto> symbol)\<rparr>\<rparr>
                 else s3))"
    if "handle (lib s1) \<noteq> 0 \<and> auto_reload s1 = Disabled"
    using that miss getSymbolInternal_miss(1) [of s1 n pf w'] by simp
  show "getSymbolInternal pf w' s1 n =
           (case Implementation_getSymbolInternal pf (snd (needsReload pf w' s1)) s1 n of
              (symbol, w3, s3) \<Rightarrow>
                (Inr symbol, w3,
                 if symbol \<noteq> 0 then
                   s3\<lparr>lib := (lib s3)
                        \<lparr>symbol_cache := (symbol_cache (lib s3))(n \<mapsto> symbol)\<rparr>\<rparr>
                 else s3))"
    if "handle (lib s1) \<noteq> 0 \<and> auto_reload s1 = Enabled \<and> \<not> fst (needsReload pf w' s1)"
    using that miss getSymbolInternal_miss(2) [of s1 n pf w'] by simp
qed

theorem C5_not_loaded_and_cache_hit_witness:
  "handle (lib DynamicLibrary_default) = 0 \<and>
   getSymbolInternal sim sim_start DynamicLibrary_default ''add'' =
     (Inr 0, sim_start, DynamicLibrary_default\<lparr>error_message := ''Library not loaded''\<rparr>) \<and>
   getSymbolInternal sim w_loaded s_loaded ''add'' = (Inr 4096, w_cached, s_cached) \<and>
   (4096 :: nat) \<noteq> 0 \<and> auto_reload s_cached = Enabled \<and>
   \<not> fst (needsReload sim w_cached s_cached) \<and>
   snd (needsReload sim w_cached s_cached) = w_cached \<and>
   getSymbolInternal sim w_cached s_cached ''add'' = (Inr 4096, w_cached, s_cached) \<and>
   handle (lib s_cached) \<noteq> 0 \<and> symbol_cache (lib s_cached) ''add'' = Some 4096 \<and>
   auto_reload (setAutoReload s_cached Disabled) = Disabled \<and>
   getSymbolInternal sim w_cached (setAutoReload s_cached Disabled) ''add'' =
     (Inr 4096, w_cached, setAutoReload s_cached Disabled) \<and>
   getSymbolInternal sim (w_cached\<lparr>sim_mtime := 60\<rparr>) (setAutoReload s_cached Disabled) ''add'' =
     (Inr 4096, w_cached\<lparr>sim_mtime := 60\<rparr>, setAutoReload s_cached Disabled) \<and>
   symbol_cache (lib s_loaded) ''sub'' = None \<and>
   getSymbolInternal sim w_loaded s_loaded ''sub'' = (Inr 0, w_missed, s_missed) \<and>
   symbol_cache (lib s_missed) ''sub'' = None \<and>
   handle (lib s_missed) \<noteq> 0 \<and> auto_reload s_missed = Enabled \<and>
   \<not> fst (needsReload sim w_missed s_missed) \<and>
   getSymbolInternal sim w_missed s_missed ''sub'' =
     (Inr 0, w_missed\<lparr>sim_calls := Call_dlsym 1 ''sub'' # sim_calls w_missed\<rparr>, s_missed) \<and>
   getSymbolInternal sim w_loaded (setAutoReload s_loaded Disabled) ''sub'' =
     (Inr 0, w_missed, setAutoReload s_missed Disabled) \<and>
   handle (lib (setAutoReload s_missed Disabled)) \<noteq> 0 \<and>
   auto_reload (setAutoReload s_missed Disabled) = Disabled \<and>
   getSymbolInternal sim w_missed (setAutoReload s_missed Disabled) ''sub'' =
     (Inr 0, w_missed\<lparr>sim_calls := Call_dlsym 1 ''sub'' # sim_calls w_missed\<rparr>,
      setAutoReload s_missed Disabled)"
proof -
  have a: "handle (lib DynamicLibrary_default) = 0"
    by (simp add: DynamicLibrary_default_def LibraryInfo_default_def)
  have b: "auto_reload s_cached = Enabled" "\<not> fst (needsReload sim w_cached s_cached)"
    "snd (needsReload sim w_cached s_cached) = w_cached"
    by (simp_all add: run_defs sim_defs s_cached_def w_cached_def)
  have c: "auto_reload (setAutoReload s_cached Disabled) = Disabled"
    "getSymbolInternal sim w_cached (setAutoReload s_cached Disabled) ''add'' =
       (Inr 4096, w_cached, setAutoReload s_cached Disabled)"
    by (simp_all add: getSymbolInternal_def setAutoReload_def s_cached_def)
  have d: "symbol_cache (lib s_loaded) ''sub'' = None"
    "symbol_cache (lib (setAutoReload s_loaded Disabled)) ''sub'' = None"
    "handle (lib s_missed) \<noteq> 0" "auto_reload s_missed = Enabled"
    "\<not> fst (needsReload sim w_missed s_missed)"
    "snd (needsReload sim w_missed s_missed) = w_missed"
    "handle (lib (setAutoReload s_missed Disabled)) \<noteq> 0"
    "auto_reload (setAutoReload s_missed Disabled) = Disabled"
    by (simp_all add: run_defs sim_defs setAutoReload_def s_loaded_def s_missed_def
          w_missed_def)
  have again:
    "(case Implementation_getSymbolInternal sim w_missed s_missed ''sub'' of
        (symbol, w3, s3) \<Rightarrow>
          (Inr symbol, w3,
           if symbol \<noteq> 0 then
             s3\<lparr>lib := (lib s3)
                  \<lparr>symbol_cache := (symbol_cache (lib s3))(''sub'' \<mapsto> symbol)\<rparr>\<rparr>
           else s3)) =
     (Inr 0, w_missed\<lparr>sim_calls := Call_dlsym 1 ''sub'' # sim_calls w_missed\<rparr>, s_missed)"
    "(case Implementation_getSymbolInternal sim w_missed (setAutoReload s_missed Disabled)
             ''sub'' of
        (symbol, w3, s3) \<Rightarrow>
          (Inr symbol, w3,
           if symbol \<noteq> 0 then
             s3\<lparr>lib := (lib s3)
                  \<lparr>symbol_cache := (symbol_cache (lib s3))(''sub'' \<mapsto> symbol)\<rparr>\<rparr>
           else s3)) =
     (Inr 0, w_missed\<lparr>sim_calls := Call_dlsym 1 ''sub'' # sim_calls w_missed\<rparr>,
      setAutoReload s_missed Disabled)"
    by (simp_all add: run_defs sim_defs setAutoReload_def w_missed_def s_missed_def)
  note first = C5_not_loaded_and_cache_hit
        [where pf = sim and w = sim_start and s = DynamicLibrary_default and n = "''add''"
           and a = 4096 and ?w1.0 = w_cached and ?s1.0 = s_cached and w' = w_cached]
  note second = C5_not_loaded_and_cache_hit
        [where pf = sim and w = w_loaded and s = s_loaded and n = "''add''"
           and a = 4096 and ?w1.0 = w_cached and ?s1.0 = s_cached and w' = w_cached]
  note third = C5_not_loaded_and_cache_hit
        [where pf = sim and w = w_cached and s = "setAutoReload s_cached Disabled"
           and n = "''add''" and a = 4096 and ?w1.0 = w_cached
           and ?s1.0 = "setAutoReload s_cached Disabled"
           and w' = "w_cached\<lparr>sim_mtime := 60\<rparr>"]
  note fourth = C5_not_loaded_and_cache_hit
        [where pf = sim and w = w_loaded and s = s_loaded and n = "''sub''"
           and a = 4096 and ?w1.0 = w_missed and ?s1.0 = s_missed and w' = w_missed]
  note fifth = C5_not_loaded_and_cache_hit
        [where pf = sim and w = w_loaded and s = "setAutoReload s_loaded Disabled"
           and n = "''sub''" and a = 4096 and ?w1.0 = w_missed
           and ?s1.0 = "setAutoReload s_missed Disabled" and w' = w_missed]
  have old: "getSymbolInternal sim sim_start DynamicLibrary_default ''add'' =
     (Inr 0, sim_start, DynamicLibrary_default\<lparr>error_message := ''Library not loaded''\<rparr>)"
    "getSymbolInternal sim w_cached s_cached ''add'' = (Inr 4096, w_cached, s_cached)"
    "symbol_cache (lib s_cached) ''add'' = Some 4096" "handle (lib s_cached) \<noteq> 0"
    "getSymbolInternal sim (w_cached\<lparr>sim_mtime := 60\<rparr>) (setAutoReload s_cached Disabled)
       ''add'' = (Inr 4096, w_cached\<lparr>sim_mtime := 60\<rparr>, setAutoReload s_cached Disabled)"
    using a b c sim_getSymbol_add first second third by simp_all
  have new: "symbol_cache (lib s_missed) ''sub'' = None"
    "getSymbolInternal sim w_missed s_missed ''sub'' =
     (Inr 0, w_missed\<lparr>sim_calls := Call_dlsym 1 ''sub'' # sim_calls w_missed\<rparr>, s_missed)"
    using d sim_getSymbol_sub fourth again by simp_all
  have new': "getSymbolInternal sim w_missed (setAutoReload s_missed Disabled) ''sub'' =
     (Inr 0, w_missed\<lparr>sim_calls := Call_dlsym 1 ''sub'' # sim_calls w_missed\<rparr>,
      setAutoReload s_missed Disabled)"
    using d sim_getSymbol_sub fifth again by simp
  show ?thesis
    using a b c d old new new' sim_getSymbol_add sim_getSymbol_sub by simp
qed

text \<open>
  C6. The claim: when the platform unloader reports an error, \<^verbatim>\<open>unload\<close> returns false
  (UnloadFailed) and the handle is cleared, so \<^verbatim>\<open>isLoaded\<close> is false afterwards. The
  run: \<^verbatim>\<open>./libexample.so\<close> is loaded, then \<^verbatim>\<open>unload\<close> is called while \<^verbatim>\<open>dlclose\<close>
  fails with a message. \<^verbatim>\<open>unload\<close> raises instead of returning false, the object still
  counts as loaded and no error message is stored.
\<close>

theorem C6_unload_failure_raises:
  "load sim sim_start DynamicLibrary_default ''./libexample.so'' Enabled =
     (Inr True, w_loaded, s_loaded) \<and>
   fst (dlclose sim (handle (lib s_loaded)) (w_loaded\<lparr>sim_close_fails := True\<rparr>)) = - 1 \<and>
   fst (unload sim (w_loaded\<lparr>sim_close_fails := True\<rparr>) s_loaded) = Inl std_logic_error \<and>
   isLoaded (snd (snd (unload sim (w_loaded\<lparr>sim_close_fails := True\<rparr>) s_loaded))) \<and>
   error_message (snd (snd (unload sim (w_loaded\<lparr>sim_close_fails := True\<rparr>) s_loaded))) = []"
proof -
  let ?w = "w_loaded\<lparr>sim_close_fails := True\<rparr>"
  let ?w1 = "snd (dlclose sim (handle (lib s_loaded)) ?w)"
  have "unload sim ?w s_loaded =
     (Inl std_logic_error, ?w1\<lparr>sim_pending := None\<rparr>,
      s_loaded\<lparr>lib := (lib s_loaded)\<lparr>symbol_cache := Map.empty\<rparr>\<rparr>)"
    by (rule unload_failure_raises [where rc = "- 1" and ?w1.0 = ?w1
          and msg = "''cannot close shared object''" and ?w2.0 = "?w1\<lparr>sim_pending := None\<rparr>"])
       (simp_all add: sim_defs s_loaded_def w_loaded_def)
  then show ?thesis
    by (simp add: sim_load_example isLoaded_def)
       (simp add: sim_defs s_loaded_def w_loaded_def)
qed

text \<open>
  C7. On an object with no module \<^verbatim>\<open>reload\<close> returns false and changes neither world nor
  object. On a loaded object whose probe answers false, \<^verbatim>\<open>reload\<close> returns false with
  the message of an unsupported reload; the world is the one the probe left (nothing is
  unloaded or loaded after it), and the library record differs from the one before the
  call only in the two fields of the cached verdict: handle, path, baseline and symbol
  cache are as before and the module stays loaded.
\<close>

theorem C7_reload_refusals:
  "(handle (lib s) = 0 \<longrightarrow> reload pf w s = (Inr False, w, s)) \<and>
   (handle (lib s) \<noteq> 0 \<and> canReload pf w s = (False, w1, s1) \<longrightarrow>
      reload pf w s =
        (Inr False, w1,
         s1\<lparr>error_message :=
               ''Library cannot be reloaded - reload capability not supported''\<rparr>) \<and>
      lib s1 = (lib s)\<lparr>reload_capability_tested := True, can_reload := False\<rparr> \<and>
      isLoaded (snd (snd (reload pf w s))))"
proof (intro conjI impI)
  assume "handle (lib s) = 0"
  then show "reload pf w s = (Inr False, w, s)" by (simp add: reload_def)
next
  assume a: "handle (lib s) \<noteq> 0 \<and> canReload pf w s = (False, w1, s1)"
  then show r: "reload pf w s =
        (Inr False, w1,
         s1\<lparr>error_message :=
               ''Library cannot be reloaded - reload capability not supported''\<rparr>)"
    using reloadInternal_refused [of pf w s] by (simp add: reload_def)
  show l: "lib s1 = (lib s)\<lparr>reload_capability_tested := True, can_reload := False\<rparr>"
    using a by (auto simp add: canReload_def Let_def split: if_splits prod.splits)
  show "isLoaded (snd (snd (reload pf w s)))"
    using a by (simp add: r l isLoaded_def)
qed

theorem C7_reload_refusals_witness:
  "handle (lib DynamicLibrary_default) = 0 \<and>
   reload sim sim_start DynamicLibrary_default = (Inr False, sim_start, DynamicLibrary_default) \<and>
   handle (lib s_loaded) \<noteq> 0 \<and>
   canReload sim (w_loaded\<lparr>sim_close_fails := True\<rparr>) s_loaded = (False, w_refused, s_refused) \<and>
   reload sim (w_loaded\<lparr>sim_close_fails := True\<rparr>) s_loaded =
     (Inr False, w_refused,
      s_refused\<lparr>error_message :=
                  ''Library cannot be reloaded - reload capability not supported''\<rparr>) \<and>
   lib s_refused = (lib s_loaded)\<lparr>reload_capability_tested := True, can_reload := False\<rparr> \<and>
   isLoaded (snd (snd (reload sim (w_loaded\<lparr>sim_close_fails := True\<rparr>) s_loaded))) \<and>
   sim_calls w_refused =
     [Call_dlclose 1, Call_dlopen ''./libexample.so'' RTLD_NOW_NOLOAD] @ sim_calls w_loaded"
proof -
  have a: "handle (lib DynamicLibrary_default) = 0" "handle (lib s_loaded) \<noteq> 0"
    by (simp_all add: DynamicLibrary_default_def LibraryInfo_default_def s_loaded_def)
  have c: "sim_calls w_refused =
     [Call_dlclose 1, Call_dlopen ''./libexample.so'' RTLD_NOW_NOLOAD] @ sim_calls w_loaded"
    by (simp add: w_refused_def w_loaded_def)
  show ?thesis
    using a c sim_probe_refused
      C7_reload_refusals [where pf = sim and w = sim_start and s = DynamicLibrary_default
            and ?w1.0 = w_refused and ?s1.0 = s_refused]
      C7_reload_refusals [where pf = sim and w = "w_loaded\<lparr>sim_close_fails := True\<rparr>" and s = s_loaded
            and ?w1.0 = w_refused and ?s1.0 = s_refused]
    by auto
qed

text \<open>
  C8. For a name that is registered, \<^verbatim>\<open>loadLibrary\<close> returns the registered object and
  leaves world and registry as they were, whatever path and mode are passed.
  \<^verbatim>\<open>unloadLibrary\<close> of a name that is not registered returns the registry as it was.
  \<^verbatim>\<open>checkAllForUpdates\<close>, on a platform whose time queries leave the world as it is,
  returns true exactly when \<^verbatim>\<open>checkForUpdates\<close> is true of some registered object, and
  leaves the world as it was. On every platform it returns true exactly when some
  registered object's \<^verbatim>\<open>checkForUpdates\<close> returns true in the world the sweep has
  reached at that entry (all entries before it having answered false), and its result
  does not depend on the loader (\<^verbatim>\<open>dlopen\<close>, \<^verbatim>\<open>dlclose\<close>, \<^verbatim>\<open>dlsym\<close>,
  \<^verbatim>\<open>dlerror\<close>) or on \<^verbatim>\<open>sleep_for\<close>, so it reloads nothing.
\<close>

theorem C8_registry:
  "(map_of m_libraries p_name = Some existing \<longrightarrow>
      loadLibrary pf w m_libraries p_name p_path p_auto_reload = (Inr existing, w, m_libraries)) \<and>
   (map_of m_libraries p_name = None \<longrightarrow> unloadLibrary m_libraries p_name = m_libraries) \<and>
   ((\<forall>p v. snd (stat_mtime pf p v) = v) \<and> (\<forall>v. snd (clock_now pf v) = v) \<longrightarrow>
      checkAllForUpdates pf w m_libraries =
        ((\<exists>library_pair \<in> set m_libraries. fst (checkForUpdates pf w (snd library_pair))), w)) \<and>
   (fst (checkAllForUpdates pf w m_libraries) \<longleftrightarrow>
      (\<exists>before library_pair rest.
         m_libraries = before @ library_pair # rest \<and>
         \<not> fst (checkAllForUpdates pf w before) \<and>
         fst (checkForUpdates pf (snd (checkAllForUpdates pf w before)) (snd library_pair)))) \<and>
   checkAllForUpdates
     (pf\<lparr>dlopen := a, dlclose := b, dlsym := c, dlerror := d, sleep_for := z\<rparr>) w m_libraries =
   checkAllForUpdates pf w m_libraries"
  using checkAllForUpdates_quiet [of pf w m_libraries]
    checkAllForUpdates_first_newer [of pf w m_libraries]
  by (simp add: loadLibrary_def unloadLibrary_unknown checkAllForUpdates_loader_free)

theorem C8_registry_witness:
  "map_of two_libraries ''math'' = Some s_cached \<and>
   loadLibrary sim w_second two_libraries ''math'' ''./libgood.so'' Disabled =
     (Inr s_cached, w_second, two_libraries) \<and>
   path (lib s_cached) = ''./libexample.so'' \<and> auto_reload s_cached = Enabled \<and>
   map_of two_libraries ''physics'' = None \<and>
   unloadLibrary two_libraries ''physics'' = two_libraries \<and>
   snd (stat_mtime sim ''./libgood.so'' w_second) = w_second \<and>
   snd (clock_now sim w_second) = w_second \<and>
   checkAllForUpdates sim w_second two_libraries = (False, w_second) \<and>
   checkAllForUpdates sim (w_second\<lparr>sim_mtime := 60\<rparr>) two_libraries =
     (True, w_second\<lparr>sim_mtime := 60\<rparr>)"
proof -
  have q: "\<forall>p v. snd (stat_mtime sim p v) = v" "\<forall>v. snd (clock_now sim v) = v"
    by (simp_all add: sim_def)
  have m: "map_of two_libraries ''math'' = Some s_cached"
    "map_of two_libraries ''physics'' = None"
    by (simp_all add: two_libraries_def)
  have e: "(\<exists>library_pair \<in> set two_libraries.
              fst (checkForUpdates sim w_second (snd library_pair))) = False"
    "(\<exists>library_pair \<in> set two_libraries.
              fst (checkForUpdates sim (w_second\<lparr>sim_mtime := 60\<rparr>) (snd library_pair))) = True"
    by (simp_all add: two_libraries_def checkForUpdates_def run_defs sim_defs w_second_def
          s_cached_def s_second_def)
  show ?thesis
    using q m
      C8_registry [where pf = sim and w = w_second and m_libraries = two_libraries
            and p_name = "''math''" and existing = s_cached and p_path = "''./libgood.so''"
            and p_auto_reload = Disabled and a = sim_dlopen and b = sim_dlclose
            and c = sim_dlsym and d = "dlerror sim" and z = "sleep_for sim"]
      C8_registry [where pf = sim and w = "w_second\<lparr>sim_mtime := 60\<rparr>" and m_libraries = two_libraries
            and p_name = "''physics''" and existing = s_cached and p_path = "''./libgood.so''"
            and p_auto_reload = Disabled and a = sim_dlopen and b = sim_dlclose
            and c = sim_dlsym and d = "dlerror sim" and z = "sleep_for sim"]
    unfolding e
    by (simp add: s_cached_def)
qed

text \<open>
  C9. \<^verbatim>\<open>load\<close> on a loaded object unloads the current module before it validates the
  new path. When that unload returns (with either result) and the path is empty or the
  file cannot be opened, \<^verbatim>\<open>load\<close> returns false and the object is left with a null
  handle and an empty cache: the previous module is gone, the stored path is still the
  old one and the message is the one of the validation.
\<close>

theorem C9_failed_load_drops_module:
  "handle (lib s) \<noteq> 0 \<and> unloadInternal pf w s = (Inr unloaded, w1, s1) \<and>
   (p_library_path = [] \<or> \<not> fst (ifstream_good pf p_library_path w1)) \<longrightarrow>
     fst (load pf w s p_library_path p_auto_reload) = Inr False \<and>
     handle (lib (snd (snd (load pf w s p_library_path p_auto_reload)))) = 0 \<and>
     \<not> isLoaded (snd (snd (load pf w s p_library_path p_auto_reload))) \<and>
     symbol_cache (lib (snd (snd (load pf w s p_library_path p_auto_reload)))) = Map.empty \<and>
     path (lib (snd (snd (load pf w s p_library_path p_auto_reload)))) = path (lib s) \<and>
     error_message (snd (snd (load pf w s p_library_path p_auto_reload))) =
       (if p_library_path = [] then ''Library path cannot be empty''
        else ''Library file does not exist or is not accessible: '' @ p_library_path)"
proof (intro impI)
  assume a: "handle (lib s) \<noteq> 0 \<and> unloadInternal pf w s = (Inr unloaded, w1, s1) \<and>
   (p_library_path = [] \<or> \<not> fst (ifstream_good pf p_library_path w1))"
  have h: "handle (lib s1) = 0"
    using a unloadInternal_handle [of pf w s] by simp
  have c: "symbol_cache (lib s1) = Map.empty" and p: "path (lib s1) = path (lib s)"
    using a unloadInternal_keeps(1,2) [of pf w s] by simp_all
  show "fst (load pf w s p_library_path p_auto_reload) = Inr False \<and>
     handle (lib (snd (snd (load pf w s p_library_path p_auto_reload)))) = 0 \<and>
     \<not> isLoaded (snd (snd (load pf w s p_library_path p_auto_reload))) \<and>
     symbol_cache (lib (snd (snd (load pf w s p_library_path p_auto_reload)))) = Map.empty \<and>
     path (lib (snd (snd (load pf w s p_library_path p_auto_reload)))) = path (lib s) \<and>
     error_message (snd (snd (load pf w s p_library_path p_auto_reload))) =
       (if p_library_path = [] then ''Library path cannot be empty''
        else ''Library file does not exist or is not accessible: '' @ p_library_path)"
    using a h c p
    by (auto simp add: load_def validatePath_def isLoaded_def split_def)
qed

theorem C9_failed_load_drops_module_witness:
  "handle (lib s_cached) \<noteq> 0 \<and>
   fst (unloadInternal sim w_cached s_cached) = Inr True \<and>
   \<not> fst (ifstream_good sim ''./nowhere.so'' (fst (snd (unloadInternal sim w_cached s_cached)))) \<and>
   fst (load sim w_cached s_cached ''./nowhere.so'' Enabled) = Inr False \<and>
   \<not> isLoaded (snd (snd (load sim w_cached s_cached ''./nowhere.so'' Enabled))) \<and>
   symbol_cache (lib (snd (snd (load sim w_cached s_cached ''./nowhere.so'' Enabled)))) =
     Map.empty \<and>
   path (lib (snd (snd (load sim w_cached s_cached ''./nowhere.so'' Enabled)))) =
     ''./libexample.so'' \<and>
   error_message (snd (snd (load sim w_cached s_cached ''./nowhere.so'' Enabled))) =
     ''Library file does not exist or is not accessible: ./nowhere.so'' \<and>
   sim_calls (fst (snd (load sim w_cached s_cached ''./nowhere.so'' Enabled))) =
     Call_dlclose 1 # sim_calls w_cached \<and>
   fst (load sim w_cached s_cached [] Enabled) = Inr False \<and>
   \<not> isLoaded (snd (snd (load sim w_cached s_cached [] Enabled))) \<and>
   error_message (snd (snd (load sim w_cached s_cached [] Enabled))) =
     ''Library path cannot be empty''"
proof -
  let ?u = "unloadInternal sim w_cached s_cached"
  have a: "handle (lib s_cached) \<noteq> 0" "fst ?u = Inr True"
    "\<not> fst (ifstream_good sim ''./nowhere.so'' (fst (snd ?u)))"
    "path (lib s_cached) = ''./libexample.so''"
    by (simp_all add: run_defs sim_defs s_cached_def w_cached_def)
  have u: "?u = (Inr True, fst (snd ?u), snd (snd ?u))"
    using a(2) by (simp add: prod_eq_iff)
  have c: "sim_calls (fst (snd (load sim w_cached s_cached ''./nowhere.so'' Enabled))) =
     Call_dlclose 1 # sim_calls w_cached"
    by (simp add: load_def run_defs sim_defs s_cached_def w_cached_def)
  show ?thesis
    using a u c
      C9_failed_load_drops_module [where pf = sim and w = w_cached and s = s_cached and unloaded = True
            and ?w1.0 = "fst (snd ?u)" and ?s1.0 = "snd (snd ?u)"
            and p_library_path = "''./nowhere.so''" and p_auto_reload = Enabled]
      C9_failed_load_drops_module [where pf = sim and w = w_cached and s = s_cached and unloaded = True
            and ?w1.0 = "fst (snd ?u)" and ?s1.0 = "snd (snd ?u)"
            and p_library_path = "[]" and p_auto_reload = Enabled]
    by simp
qed

text \<open>
  C10, as stated: on an unloaded handle \<^verbatim>\<open>canReload\<close> returns true, so \<^verbatim>\<open>touch\<close> with
  auto-reload enabled runs the unload-then-load sequence. \<^verbatim>\<open>canReload\<close> returns the
  stored verdict, and that is false after a probe that failed: the object below was
  loaded, probed while \<^verbatim>\<open>dlclose\<close> failed, and unloaded. \<^verbatim>\<open>canReload\<close> answers false
  on it, and \<^verbatim>\<open>touch\<close> returns false, calls nothing of the loader and leaves it
  unloaded.
\<close>

theorem C10_counterexample:
  "load sim sim_start DynamicLibrary_default ''./libexample.so'' Enabled =
     (Inr True, w_loaded, s_loaded) \<and>
   canReload sim (w_loaded\<lparr>sim_close_fails := True\<rparr>) s_loaded =
     (False, w_refused, s_refused) \<and>
   unload sim (w_refused\<lparr>sim_close_fails := False\<rparr>) s_refused =
     (Inr True, w_dropped, s_dropped) \<and>
   \<not> isLoaded s_dropped \<and> auto_reload s_dropped = Enabled \<and>
   canReload sim w_dropped s_dropped = (False, w_dropped, s_dropped) \<and>
   fst (touch sim w_dropped s_dropped) = Inr False \<and>
   \<not> isLoaded (snd (snd (touch sim w_dropped s_dropped))) \<and>
   sim_calls (fst (snd (touch sim w_dropped s_dropped))) = sim_calls w_dropped"
  by (simp add: sim_load_example sim_probe_refused sim_unload_refused)
     (simp add: touch_def isLoaded_def run_defs sim_defs w_dropped_def s_dropped_def)

text \<open>
  C10, amended. On an object with no module \<^verbatim>\<open>canReload\<close> returns the stored verdict
  (true in a default object) and leaves world and object as they were, so no probe runs,
  and \<^verbatim>\<open>reload\<close> returns false. With auto-reload enabled and the stored verdict true,
  \<^verbatim>\<open>touch\<close> reads the clock, waits, reads the time of the file and calls
  \<^verbatim>\<open>loadInternal\<close> on the stored path; when \<^verbatim>\<open>dlopen\<close> returns a handle the result is
  true and the object is loaded. With the stored verdict false \<^verbatim>\<open>touch\<close> returns false
  with the message of an unsupported reload and only the baseline is changed.
\<close>

theorem C10_unloaded_canReload_and_touch:
  "can_reload (lib DynamicLibrary_default) \<and>
   (handle (lib s) = 0 \<longrightarrow>
      canReload pf w s = (can_reload (lib s), w, s) \<and> reload pf w s = (Inr False, w, s)) \<and>
   (handle (lib s) = 0 \<and> auto_reload s = Enabled \<and> can_reload (lib s) \<and>
    clock_now pf w = (now, w1) \<and>
    getFileModificationTime pf (sleep_for pf 10 w1) (path (lib s)) = (t, w2) \<longrightarrow>
      touch pf w s =
        (case loadInternal pf w2 (s\<lparr>lib := (lib s)\<lparr>last_modified := t\<rparr>\<rparr>) of
           (Inl e, w3, s3) \<Rightarrow> (Inl e, w3, s3)
         | (Inr success, w3, s3) \<Rightarrow>
             if success then (Inr True, w3, s3)
             else (Inr False, w3,
                   s3\<lparr>error_message :=
                         ''Failed to reload library '' @ CHR 0x27 # path (lib s) @
                         CHR 0x27 # '': '' @ error_message s3\<rparr>)) \<and>
      (fst (dlopen pf (path (lib s)) RTLD_NOW_LOCAL w2) \<noteq> 0 \<longrightarrow>
         fst (touch pf w s) = Inr True \<and> isLoaded (snd (snd (touch pf w s))))) \<and>
   (handle (lib s) = 0 \<and> auto_reload s = Enabled \<and> \<not> can_reload (lib s) \<and>
    clock_now pf w = (now, w1) \<longrightarrow>
      touch pf w s =
        (Inr False, w1,
         s\<lparr>lib := (lib s)\<lparr>last_modified := now\<rparr>,
           error_message :=
             ''Library cannot be reloaded - reload capability not supported''\<rparr>))"
proof (intro conjI impI)
  show "can_reload (lib DynamicLibrary_default)"
    by (simp add: DynamicLibrary_default_def LibraryInfo_default_def)
next
  assume "handle (lib s) = 0"
  then show "canReload pf w s = (can_reload (lib s), w, s)"
    and "reload pf w s = (Inr False, w, s)"
    by (simp_all add: canReload_def reload_def)
next
  assume a: "handle (lib s) = 0 \<and> auto_reload s = Enabled \<and> \<not> can_reload (lib s) \<and>
    clock_now pf w = (now, w1)"
  then show "touch pf w s =
        (Inr False, w1,
         s\<lparr>lib := (lib s)\<lparr>last_modified := now\<rparr>,
           error_message :=
             ''Library cannot be reloaded - reload capability not supported''\<rparr>)"
    by (simp add: touch_def reloadInternal_def canReload_def Let_def)
next
  assume a: "handle (lib s) = 0 \<and> auto_reload s = Enabled \<and> can_reload (lib s) \<and>
    clock_now pf w = (now, w1) \<and>
    getFileModificationTime pf (sleep_for pf 10 w1) (path (lib s)) = (t, w2)"
  then show eq: "touch pf w s =
        (case loadInternal pf w2 (s\<lparr>lib := (lib s)\<lparr>last_modified := t\<rparr>\<rparr>) of
           (Inl e, w3, s3) \<Rightarrow> (Inl e, w3, s3)
         | (Inr success, w3, s3) \<Rightarrow>
             if success then (Inr True, w3, s3)
             else (Inr False, w3,
                   s3\<lparr>error_message :=
                         ''Failed to reload library '' @ CHR 0x27 # path (lib s) @
                         CHR 0x27 # '': '' @ error_message s3\<rparr>))"
    by (auto simp add: touch_def reloadInternal_def canReload_def unloadInternal_def Let_def
          split: sum.splits prod.splits)
  assume o: "fst (dlopen pf (path (lib s)) RTLD_NOW_LOCAL w2) \<noteq> 0"
  show "fst (touch pf w s) = Inr True" and "isLoaded (snd (snd (touch pf w s)))"
    unfolding eq using o
    by (simp_all add: loadInternal_def Let_def split_def isLoaded_def)
qed

theorem C10_unloaded_canReload_and_touch_witness:
  "unload sim w_loaded s_loaded = (Inr True, w_unloaded, s_unloaded) \<and>
   handle (lib s_unloaded) = 0 \<and> auto_reload s_unloaded = Enabled \<and>
   can_reload (lib s_unloaded) \<and>
   canReload sim w_unloaded s_unloaded = (True, w_unloaded, s_unloaded) \<and>
   reload sim w_unloaded s_unloaded = (Inr False, w_unloaded, s_unloaded) \<and>
   clock_now sim w_unloaded = (100, w_unloaded) \<and>
   getFileModificationTime sim (sleep_for sim 10 w_unloaded) (path (lib s_unloaded)) =
     (50, w_unloaded\<lparr>sim_clock := 110\<rparr>) \<and>
   fst (dlopen sim (path (lib s_unloaded)) RTLD_NOW_LOCAL (w_unloaded\<lparr>sim_clock := 110\<rparr>)) \<noteq> 0 \<and>
   fst (touch sim w_unloaded s_unloaded) = Inr True \<and>
   isLoaded (snd (snd (touch sim w_unloaded s_unloaded))) \<and>
   handle (lib s_dropped) = 0 \<and> auto_reload s_dropped = Enabled \<and>
   \<not> can_reload (lib s_dropped) \<and>
   clock_now sim w_dropped = (100, w_dropped) \<and>
   touch sim w_dropped s_dropped =
     (Inr False, w_dropped,
      s_dropped
        \<lparr>lib := (lib s_dropped)\<lparr>last_modified := 100\<rparr>,
         error_message :=
           ''Library cannot be reloaded - reload capability not supported''\<rparr>)"
proof -
  have a: "handle (lib s_unloaded) = 0" "auto_reload s_unloaded = Enabled"
    "can_reload (lib s_unloaded)" "clock_now sim w_unloaded = (100, w_unloaded)"
    "getFileModificationTime sim (sleep_for sim 10 w_unloaded) (path (lib s_unloaded)) =
       (50, w_unloaded\<lparr>sim_clock := 110\<rparr>)"
    "fst (dlopen sim (path (lib s_unloaded)) RTLD_NOW_LOCAL (w_unloaded\<lparr>sim_clock := 110\<rparr>))
       \<noteq> 0"
    by (simp_all add: run_defs sim_defs s_unloaded_def w_unloaded_def)
  have b: "handle (lib s_dropped) = 0" "auto_reload s_dropped = Enabled"
    "\<not> can_reload (lib s_dropped)" "clock_now sim w_dropped = (100, w_dropped)"
    by (simp_all add: sim_defs s_dropped_def w_dropped_def)
  show ?thesis
    using a b sim_unload_loaded
      C10_unloaded_canReload_and_touch [where pf = sim and w = w_unloaded and s = s_unloaded and now = 100
             and ?w1.0 = w_unloaded and t = 50 and ?w2.0 = "w_unloaded\<lparr>sim_clock := 110\<rparr>"]
      C10_unloaded_canReload_and_touch [where pf = sim and w = w_dropped and s = s_dropped and now = 100
             and ?w1.0 = w_dropped and t = 50 and ?w2.0 = "w_unloaded\<lparr>sim_clock := 110\<rparr>"]
    by auto
qed

end
